theory Spec2Isabelle
  imports Complex_Main
begin

section \<open>Translation complexity scorer: configuration, providers and aggregation\<close>

text \<open>
  Python floats are modelled in two ways. The scoring pipeline is defined in exact real
  arithmetic, which is enough wherever a property does not depend on rounding. For the
  properties that do (the exact value of a category average, the lower end of the
  reading-ease range), \<open>np.mean\<close> and the readability normalisation are defined a second
  time in double precision. Overflow and infinities are outside both. The one special value
  the aggregation code can produce from numbers, the \<open>nan\<close> that \<open>np.mean\<close> returns for an
  empty list, is kept as a value of its own.
\<close>

subsection \<open>Outcomes of a call\<close>

text \<open>
  The exceptions the scoring code can meet. \<open>ZeroDivisionError\<close> and \<open>KeyError\<close> are
  raised by the code itself; \<open>Exception msg\<close> stands for any other subclass of Python's
  \<open>Exception\<close> raised by an external library (textstat, spaCy, the embedding model).
\<close>

datatype py_exception = ZeroDivisionError | KeyError string | Exception string

text \<open>A call returns a value, raises, or (for the one unbounded loop) never returns.\<close>

datatype 'a outcome = Returns 'a | Raises py_exception | Diverges

subsection \<open>config.py\<close>

record Config =
  READABILITY_WEIGHT :: real
  LINGUISTIC_WEIGHT :: real
  TRANSLATION_WEIGHT :: real
  EMBEDDING_MODEL :: string
  SPACY_MODEL :: string
  LOW_COMPLEXITY_THRESHOLD :: real
  MEDIUM_COMPLEXITY_THRESHOLD :: real
  HIGH_COMPLEXITY_THRESHOLD :: real

text \<open>
  The constructor that \<open>@dataclass\<close> generates assigns the eight fields and does nothing
  else: the class has no \<open>__post_init__\<close>, so no argument is checked.
\<close>

definition Config_init ::
  "real \<Rightarrow> real \<Rightarrow> real \<Rightarrow> string \<Rightarrow> string \<Rightarrow> real \<Rightarrow> real \<Rightarrow> real \<Rightarrow> Config outcome" where
  "Config_init rw lw tw em sm lo me hi =
     Returns \<lparr>READABILITY_WEIGHT = rw, LINGUISTIC_WEIGHT = lw, TRANSLATION_WEIGHT = tw,
              EMBEDDING_MODEL = em, SPACY_MODEL = sm,
              LOW_COMPLEXITY_THRESHOLD = lo, MEDIUM_COMPLEXITY_THRESHOLD = me,
              HIGH_COMPLEXITY_THRESHOLD = hi\<rparr>"

text \<open>\<open>Config()\<close>: every field at its declared default.\<close>

definition Config_default :: Config where
  "Config_default =
     \<lparr>READABILITY_WEIGHT = 3 / 10, LINGUISTIC_WEIGHT = 4 / 10, TRANSLATION_WEIGHT = 3 / 10,
      EMBEDDING_MODEL = ''sentence-transformers/all-MiniLM-L6-v2'',
      SPACY_MODEL = ''en_core_web_sm'',
      LOW_COMPLEXITY_THRESHOLD = 25 / 100, MEDIUM_COMPLEXITY_THRESHOLD = 45 / 100,
      HIGH_COMPLEXITY_THRESHOLD = 65 / 100\<rparr>"

text \<open>A Python dict keeps insertion order: an association list with distinct keys.\<close>

type_synonym 'v dict = "(string \<times> 'v) list"

definition get_metric_weights :: "Config \<Rightarrow> real dict" where
  "get_metric_weights self =
     [(''readability'', READABILITY_WEIGHT self),
      (''linguistic'', LINGUISTIC_WEIGHT self),
      (''translation'', TRANSLATION_WEIGHT self)]"

definition get_complexity_level :: "Config \<Rightarrow> real \<Rightarrow> string" where
  "get_complexity_level self score =
     (if score < LOW_COMPLEXITY_THRESHOLD self then ''low''
      else if score < MEDIUM_COMPLEXITY_THRESHOLD self then ''medium''
      else if score < HIGH_COMPLEXITY_THRESHOLD self then ''high''
      else ''very_high'')"

subsection \<open>Python and numpy primitives\<close>

text \<open>Sequencing: the first call that raises or diverges ends the computation.\<close>

definition then_do :: "'a outcome \<Rightarrow> ('a \<Rightarrow> 'b outcome) \<Rightarrow> 'b outcome" where
  "then_do m f = (case m of Returns v \<Rightarrow> f v | Raises e \<Rightarrow> Raises e | Diverges \<Rightarrow> Diverges)"

text \<open>A call into an external library either returns a value or raises.\<close>

definition call :: "py_exception + 'a \<Rightarrow> 'a outcome" where
  "call r = (case r of Inl e \<Rightarrow> Raises e | Inr v \<Rightarrow> Returns v)"

text \<open>\<open>a / b\<close> on numbers.\<close>

definition py_truediv :: "real \<Rightarrow> real \<Rightarrow> real outcome" where
  "py_truediv a b = (if b = 0 then Raises ZeroDivisionError else Returns (a / b))"

definition dict_values :: "'v dict \<Rightarrow> 'v list" where
  "dict_values d = map snd d"

text \<open>\<open>d[k] = v\<close>: an existing key keeps its position.\<close>

fun dict_setitem :: "'v dict \<Rightarrow> string \<Rightarrow> 'v \<Rightarrow> 'v dict" where
  "dict_setitem [] k v = [(k, v)]"
| "dict_setitem ((k', v') # d) k v =
     (if k' = k then (k', v) # d else (k', v') # dict_setitem d k v)"

definition dict_update :: "'v dict \<Rightarrow> 'v dict \<Rightarrow> 'v dict" where
  "dict_update d other = fold (\<lambda>(k, v) acc. dict_setitem acc k v) other d"

definition dict_getitem :: "'v dict \<Rightarrow> string \<Rightarrow> 'v outcome" where
  "dict_getitem d k = (case map_of d k of None \<Rightarrow> Raises (KeyError k) | Some v \<Rightarrow> Returns v)"

text \<open>A float that the aggregation can hold: a number, or numpy's \<open>nan\<close>.\<close>

datatype pyfloat = Num real | NaN

text \<open>\<open>np.mean\<close> of a list: \<open>nan\<close> (with a warning, no exception) when the list is empty.\<close>

definition np_mean :: "real list \<Rightarrow> pyfloat" where
  "np_mean xs = (if xs = [] then NaN else Num (sum_list xs / real (length xs)))"

fun finite_values :: "pyfloat list \<Rightarrow> real list option" where
  "finite_values [] = Some []"
| "finite_values (NaN # a) = None"
| "finite_values (Num x # a) = map_option ((#) x) (finite_values a)"

text \<open>
  \<open>np.average(a, weights=w)\<close> on two one-dimensional arrays of the same length: numpy
  first sums the weights and raises \<open>ZeroDivisionError\<close> when the sum is zero, then
  divides the sum of the products by it; a \<open>nan\<close> among the values makes the result \<open>nan\<close>.
\<close>

definition np_average :: "pyfloat list \<Rightarrow> real list \<Rightarrow> pyfloat outcome" where
  "np_average a weights =
     (let scl = sum_list weights in
      if scl = 0 then Raises ZeroDivisionError
      else (case finite_values a of
              None \<Rightarrow> Returns NaN
            | Some xs \<Rightarrow> Returns (Num (sum_list (map2 (*) xs weights) / scl))))"

text \<open>\<open>np.clip(a, a_min, a_max)\<close>: \<open>minimum(maximum(a, a_min), a_max)\<close>; \<open>nan\<close> stays \<open>nan\<close>.\<close>

definition np_clip :: "pyfloat \<Rightarrow> real \<Rightarrow> real \<Rightarrow> pyfloat" where
  "np_clip a a_min a_max = (case a of NaN \<Rightarrow> NaN | Num x \<Rightarrow> Num (min (max x a_min) a_max))"

text \<open>
  Strings. Texts are taken to be ASCII: \<open>str.lower\<close> maps A..Z to a..z (it sets the bit
  of value 32 in the character code), and \<open>str.split()\<close>
  splits at runs of the ASCII whitespace characters (tab, line feed, vertical tab, form
  feed, carriage return, the separators 28..31 and space), dropping empty pieces.
\<close>

definition lower_char :: "char \<Rightarrow> char" where
  "lower_char c =
     (if c \<in> set ''ABCDEFGHIJKLMNOPQRSTUVWXYZ''
      then (case c of Char b0 b1 b2 b3 b4 b5 b6 b7 \<Rightarrow> Char b0 b1 b2 b3 b4 True b6 b7)
      else c)"

definition py_lower :: "string \<Rightarrow> string" where
  "py_lower s = map lower_char s"

definition is_space :: "char \<Rightarrow> bool" where
  "is_space c =
     (c \<in> set [CHR 0x09, CHR 0x0A, CHR 0x0B, CHR 0x0C, CHR 0x0D,
                CHR 0x1C, CHR 0x1D, CHR 0x1E, CHR 0x1F, CHR 0x20])"

fun split_from :: "string \<Rightarrow> string \<Rightarrow> string list" where
  "split_from cur [] = (if cur = [] then [] else [rev cur])"
| "split_from cur (c # cs) =
     (if is_space c then (if cur = [] then split_from [] cs else rev cur # split_from [] cs)
      else split_from (c # cur) cs)"

definition py_split :: "string \<Rightarrow> string list" where
  "py_split s = split_from [] s"

text \<open>\<open>sep.join(parts)\<close>.\<close>

fun py_join :: "string \<Rightarrow> string list \<Rightarrow> string" where
  "py_join sep [] = []"
| "py_join sep [p] = p"
| "py_join sep (p # q # ps) = p @ sep @ py_join sep (q # ps)"

subsection \<open>metrics/readability.py\<close>

text \<open>
  The five textstat functions the provider calls are external: each is a parameter that,
  for a text, returns a number or raises.
\<close>

record textstat =
  flesch_kincaid_grade :: "string \<Rightarrow> py_exception + real"
  coleman_liau_index :: "string \<Rightarrow> py_exception + real"
  gunning_fog :: "string \<Rightarrow> py_exception + real"
  smog_index :: "string \<Rightarrow> py_exception + real"
  flesch_reading_ease :: "string \<Rightarrow> py_exception + real"

text \<open>The normalisation loop of \<open>score\<close>, over the items of \<open>scores\<close> in order.\<close>

definition normalize_scores :: "real dict \<Rightarrow> real dict" where
  "normalize_scores scores =
     fold (\<lambda>(metric, score) normalized_scores.
             if metric = ''flesch_reading_ease''
             then dict_setitem normalized_scores metric (1 - score / 120)
             else dict_setitem normalized_scores metric (score / 25))
          scores []"

text \<open>The body of the \<open>try\<close> block: five clamped raw scores, then the loop.\<close>

definition readability_try :: "textstat \<Rightarrow> string \<Rightarrow> py_exception + real dict" where
  "readability_try ts text =
     (case flesch_kincaid_grade ts text of Inl e \<Rightarrow> Inl e | Inr fk \<Rightarrow>
      (case coleman_liau_index ts text of Inl e \<Rightarrow> Inl e | Inr cl \<Rightarrow>
       (case gunning_fog ts text of Inl e \<Rightarrow> Inl e | Inr gf \<Rightarrow>
        (case smog_index ts text of Inl e \<Rightarrow> Inl e | Inr sm \<Rightarrow>
         (case flesch_reading_ease ts text of Inl e \<Rightarrow> Inl e | Inr fre \<Rightarrow>
            Inr (normalize_scores
                   [(''flesch_kincaid'', max 0 (min 20 fk)),
                    (''coleman_liau'', max 0 (min 20 cl)),
                    (''gunning_fog'', max 0 (min 20 gf)),
                    (''smog'', max 0 (min 20 sm)),
                    (''flesch_reading_ease'', max 0 (min 100 fre))]))))))"

definition readability_default :: "real dict" where
  "readability_default =
     [(''flesch_kincaid'', 0), (''coleman_liau'', 0), (''gunning_fog'', 0), (''smog'', 0),
      (''flesch_reading_ease'', 0)]"

text \<open>
  \<open>ReadabilityMetrics.score\<close>: \<open>except Exception\<close> catches whatever the block raises (the
  warning it prints is not modelled) and returns the default mapping.
\<close>

definition readability_score :: "textstat \<Rightarrow> string \<Rightarrow> real dict" where
  "readability_score ts text =
     (case readability_try ts text of Inr normalized_scores \<Rightarrow> normalized_scores
      | Inl e \<Rightarrow> readability_default)"

subsection \<open>metrics/linguistic.py\<close>

text \<open>
  A spaCy \<open>Doc\<close> as far as the provider reads it. A token is identified by its position in
  the document; \<open>head doc i\<close> is the position of the head of token \<open>i\<close> in the dependency
  parse (a root is its own head); \<open>sents\<close> lists the sentence spans \<open>(start, stop)\<close> that
  \<open>doc.sents\<close> yields, in order.
\<close>

record token =
  token_text :: string
  is_punct :: bool

record Doc =
  doc_tokens :: "token list"
  head :: "nat \<Rightarrow> nat"
  sents :: "(nat \<times> nat) list"

text \<open>
  The truth value of \<open>doc.sents\<close>. \<open>Doc.sents\<close> is a generator (which is why the code
  takes \<open>len(list(doc.sents))\<close>), and a generator object has neither \<open>__bool__\<close> nor
  \<open>__len__\<close>: it is true whatever it would yield.
\<close>

definition generator_truth :: "'a list \<Rightarrow> bool" where
  "generator_truth g = True"

definition calculate_avg_sentence_length :: "Doc \<Rightarrow> real outcome" where
  "calculate_avg_sentence_length doc =
     (if \<not> generator_truth (sents doc) then Returns 0
      else py_truediv (real (sum_list (map (\<lambda>(start, stop). stop - start) (sents doc))))
                      (real (length (sents doc))))"

definition calculate_lexical_diversity :: "Doc \<Rightarrow> real" where
  "calculate_lexical_diversity doc =
     (let tokens = map (\<lambda>t. py_lower (token_text t)) (filter (\<lambda>t. \<not> is_punct t) (doc_tokens doc))
      in if tokens = [] then 0
         else real (length (remdups tokens)) / real (length tokens))"

text \<open>
  The inner \<open>while current.head != current\<close> loop, from token \<open>current\<close> with \<open>depth\<close>
  steps counted so far. It ends only if the chain of heads reaches a root.
\<close>

partial_function (option) head_depth :: "(nat \<Rightarrow> nat) \<Rightarrow> nat \<Rightarrow> nat \<Rightarrow> nat option" where
  "head_depth head_of current depth =
     (if head_of current \<noteq> current then head_depth head_of (head_of current) (depth + 1)
      else Some depth)"

declare head_depth.simps [code]

text \<open>The \<open>for token in sent\<close> loop: the greatest depth among the tokens of one sentence.\<close>

definition sent_max_depth :: "(nat \<Rightarrow> nat) \<Rightarrow> nat \<times> nat \<Rightarrow> nat option" where
  "sent_max_depth head_of sent =
     fold (\<lambda>tok acc.
             case acc of None \<Rightarrow> None
             | Some max_depth \<Rightarrow>
                 (case head_depth head_of tok 0 of None \<Rightarrow> None
                  | Some depth \<Rightarrow> Some (max max_depth depth)))
          [fst sent ..< snd sent] (Some 0)"

fun sentence_depths :: "(nat \<Rightarrow> nat) \<Rightarrow> (nat \<times> nat) list \<Rightarrow> nat list option" where
  "sentence_depths head_of [] = Some []"
| "sentence_depths head_of (sent # rest) =
     (case sent_max_depth head_of sent of None \<Rightarrow> None
      | Some max_depth \<Rightarrow> map_option ((#) max_depth) (sentence_depths head_of rest))"

definition calculate_syntactic_complexity :: "Doc \<Rightarrow> real outcome" where
  "calculate_syntactic_complexity doc =
     (if \<not> generator_truth (sents doc) then Returns 0
      else (case sentence_depths (head doc) (sents doc) of
              None \<Rightarrow> Diverges
            | Some depths \<Rightarrow> py_truediv (real (sum_list depths)) (real (length depths))))"

definition common_words :: "string list" where
  "common_words =
     [''the'', ''be'', ''to'', ''of'', ''and'', ''a'', ''in'', ''that'', ''have'', ''i'',
      ''it'', ''for'', ''not'', ''on'', ''with'', ''he'', ''as'', ''you'', ''do'', ''at'',
      ''this'', ''but'', ''his'', ''by'', ''from'', ''they'', ''we'', ''say'', ''her'', ''she'',
      ''or'', ''an'', ''will'', ''my'', ''one'', ''all'', ''would'', ''there'', ''their'',
      ''what'', ''so'', ''up'', ''out'', ''if'', ''about'', ''who'', ''get'', ''which'', ''go'',
      ''me'', ''when'', ''make'', ''can'', ''like'', ''time'', ''no'', ''just'', ''him'', ''know'',
      ''take'', ''people'', ''into'', ''year'', ''your'', ''good'', ''some'', ''could'', ''them'',
      ''see'', ''other'', ''than'', ''then'', ''now'', ''look'', ''only'', ''come'', ''its'',
      ''over'', ''think'', ''also'', ''back'', ''after'', ''use'', ''two'', ''how'', ''our'',
      ''work'', ''first'', ''well'', ''way'', ''even'', ''new'', ''want'', ''because'', ''any'',
      ''these'', ''give'', ''day'', ''most'', ''us'']"

definition calculate_vocabulary_rarity :: "Doc \<Rightarrow> real" where
  "calculate_vocabulary_rarity doc =
     (let words = map (\<lambda>t. py_lower (token_text t)) (filter (\<lambda>t. \<not> is_punct t) (doc_tokens doc))
      in if words = [] then 0
         else (let rare_words = filter (\<lambda>w. w \<notin> set common_words) words
               in real (length rare_words) / real (length words)))"

text \<open>
  \<open>LinguisticMetrics.score\<close>. The spaCy pipeline \<open>nlp\<close> is external: a parameter that returns
  the parsed document or raises. The raw scores are computed in the order of the dict
  literal, then normalised.
\<close>

definition linguistic_score :: "(string \<Rightarrow> py_exception + Doc) \<Rightarrow> string \<Rightarrow> real dict outcome" where
  "linguistic_score nlp_of text =
     then_do (call (nlp_of text)) (\<lambda>doc.
     then_do (calculate_avg_sentence_length doc) (\<lambda>raw_avg_sentence_length.
     let raw_lexical_diversity = calculate_lexical_diversity doc in
     then_do (calculate_syntactic_complexity doc) (\<lambda>raw_syntactic_complexity.
     let raw_vocabulary_rarity = calculate_vocabulary_rarity doc in
     Returns [(''avg_sentence_length'', min (raw_avg_sentence_length / 30) 1),
              (''lexical_diversity'', raw_lexical_diversity * (6 / 10)),
              (''syntactic_complexity'', min (raw_syntactic_complexity / 10) 1),
              (''vocabulary_rarity'', raw_vocabulary_rarity * (5 / 10))])))"

subsection \<open>metrics/translation.py\<close>

text \<open>
  The tokenizer and the embedding model are external: the parameter \<open>norm_of\<close> gives, for
  a text, the number \<open>torch.norm(embeddings, dim=1).mean().item()\<close>, or raises.
\<close>

definition calculate_semantic_complexity :: "(string \<Rightarrow> py_exception + real) \<Rightarrow> string \<Rightarrow> real outcome" where
  "calculate_semantic_complexity norm_of text =
     then_do (call (norm_of text)) (\<lambda>complexity. Returns (min (complexity / 10) 1))"

definition common_idioms :: "string list" where
  "common_idioms =
     [''kick the bucket'', ''raining cats and dogs'', ''piece of cake'',
      ''let the cat out of the bag'', ''hit the nail on the head'']"

text \<open>
  \<open>range(len(words) - 2)\<close> is empty when there are fewer than three words, as the
  truncating subtraction on \<open>nat\<close> makes \<open>[0 ..< length words - 2]\<close>; \<open>words[i:i+3]\<close> is
  \<open>take 3 (drop i words)\<close>. The divisor \<open>len(words) / 3\<close> is not zero: \<open>words\<close> is not empty.
\<close>

definition calculate_idiomatic_density :: "string \<Rightarrow> real" where
  "calculate_idiomatic_density text =
     (let words = py_split (py_lower text)
      in if words = [] then 0
         else (let idiom_count =
                     length (filter (\<lambda>i. py_join '' '' (take 3 (drop i words)) \<in> set common_idioms)
                                    [0 ..< length words - 2])
               in min (real idiom_count / (real (length words) / 3)) 1))"

definition common_terms :: "string list" where
  "common_terms =
     [''the'', ''be'', ''to'', ''of'', ''and'', ''a'', ''in'', ''that'', ''have'', ''i'',
      ''it'', ''for'', ''not'', ''on'', ''with'', ''he'', ''as'', ''you'', ''do'', ''at'',
      ''this'', ''but'', ''his'', ''by'', ''from'', ''they'', ''we'', ''say'', ''her'', ''she'']"

definition calculate_domain_specificity :: "string \<Rightarrow> real" where
  "calculate_domain_specificity text =
     (let words = py_split (py_lower text)
      in if words = [] then 0
         else (let domain_terms = filter (\<lambda>w. w \<notin> set common_terms) words
               in real (length domain_terms) / real (length words)))"

definition translation_score :: "(string \<Rightarrow> py_exception + real) \<Rightarrow> string \<Rightarrow> real dict outcome" where
  "translation_score norm_of text =
     then_do (calculate_semantic_complexity norm_of text) (\<lambda>semantic_complexity.
     Returns [(''semantic_complexity'', semantic_complexity),
              (''idiomatic_density'', calculate_idiomatic_density text),
              (''domain_specificity'', calculate_domain_specificity text)])"

subsection \<open>scorer.py\<close>

text \<open>
  The scorer holds its configuration and the three providers' external collaborators
  (loading the models is not modelled: the loaded models are the parameters).
\<close>

record TranslationComplexityScorer =
  config :: Config
  readability_metrics :: textstat
  nlp :: "string \<Rightarrow> py_exception + Doc"
  embedding_norm :: "string \<Rightarrow> py_exception + real"

text \<open>\<open>__init__\<close>: \<open>config or Config()\<close>; a dataclass instance is true, so a given one is kept.\<close>

definition scorer_init ::
  "Config option \<Rightarrow> textstat \<Rightarrow> (string \<Rightarrow> py_exception + Doc) \<Rightarrow> (string \<Rightarrow> py_exception + real)
     \<Rightarrow> TranslationComplexityScorer" where
  "scorer_init cfg ts nlp_of norm_of =
     \<lparr>config = (case cfg of None \<Rightarrow> Config_default | Some c \<Rightarrow> c),
      readability_metrics = ts, nlp = nlp_of, embedding_norm = norm_of\<rparr>"

text \<open>The expression \<open>np.mean(list(scores.values()))\<close>, used once per category.\<close>

definition category_average :: "real dict \<Rightarrow> pyfloat" where
  "category_average scores = np_mean (dict_values scores)"

definition calculate_overall_score :: "Config \<Rightarrow> real dict \<Rightarrow> real dict \<Rightarrow> real dict \<Rightarrow> pyfloat outcome" where
  "calculate_overall_score cfg readability_scores linguistic_scores translation_scores =
     (let weights = get_metric_weights cfg;
          readability_avg = category_average readability_scores;
          linguistic_avg = category_average linguistic_scores;
          translation_avg = category_average translation_scores;
          category_scores = [readability_avg, linguistic_avg, translation_avg]
      in then_do (dict_getitem weights ''readability'') (\<lambda>w_readability.
         then_do (dict_getitem weights ''linguistic'') (\<lambda>w_linguistic.
         then_do (dict_getitem weights ''translation'') (\<lambda>w_translation.
         then_do (np_average category_scores [w_readability, w_linguistic, w_translation])
           (\<lambda>average. Returns (np_clip average 0 1))))))"

text \<open>The provider dicts hold numbers; in the result they sit beside the overall score.\<close>

definition as_floats :: "real dict \<Rightarrow> pyfloat dict" where
  "as_floats d = map (\<lambda>(k, v). (k, Num v)) d"

definition score_text :: "TranslationComplexityScorer \<Rightarrow> string \<Rightarrow> pyfloat dict outcome" where
  "score_text self text =
     (let scores = [];
          readability_scores = readability_score (readability_metrics self) text;
          scores = dict_update scores (as_floats readability_scores)
      in then_do (linguistic_score (nlp self) text) (\<lambda>linguistic_scores.
         let scores = dict_update scores (as_floats linguistic_scores)
         in then_do (translation_score (embedding_norm self) text) (\<lambda>translation_scores.
            let scores = dict_update scores (as_floats translation_scores)
            in then_do (calculate_overall_score (config self) readability_scores
                          linguistic_scores translation_scores)
                 (\<lambda>overall. Returns (dict_setitem scores ''overall_complexity'' overall)))))"

text \<open>The list comprehension: the texts in order; the first call that raises ends it.\<close>

fun batch_score :: "TranslationComplexityScorer \<Rightarrow> string list \<Rightarrow> pyfloat dict list outcome" where
  "batch_score self [] = Returns []"
| "batch_score self (text # texts) =
     then_do (score_text self text) (\<lambda>scores.
     then_do (batch_score self texts) (\<lambda>rest. Returns (scores # rest)))"

subsection \<open>A concrete scorer\<close>

text \<open>
  Collaborators for running the model on concrete inputs: textstat numbers for a short
  simple text, a pipeline that parses the empty text to the empty document and any other
  text to the one-sentence document of \<open>The cat sat.\<close>, and an embedding norm of 5.
\<close>

definition example_textstat :: textstat where
  "example_textstat =
     \<lparr>flesch_kincaid_grade = (\<lambda>text. Inr (-2)), coleman_liau_index = (\<lambda>text. Inr 5),
      gunning_fog = (\<lambda>text. Inr 10), smog_index = (\<lambda>text. Inr 30),
      flesch_reading_ease = (\<lambda>text. Inr 110)\<rparr>"

definition empty_Doc :: Doc where
  "empty_Doc = \<lparr>doc_tokens = [], head = (\<lambda>i. i), sents = []\<rparr>"

definition example_Doc :: Doc where
  "example_Doc =
     \<lparr>doc_tokens = [\<lparr>token_text = ''The'', is_punct = False\<rparr>,
                    \<lparr>token_text = ''cat'', is_punct = False\<rparr>,
                    \<lparr>token_text = ''sat'', is_punct = False\<rparr>,
                    \<lparr>token_text = ''.'', is_punct = True\<rparr>],
      head = (\<lambda>i. if i = 0 then 1 else 2),
      sents = [(0, 4)]\<rparr>"

definition example_nlp :: "string \<Rightarrow> py_exception + Doc" where
  "example_nlp text = (if text = [] then Inr empty_Doc else Inr example_Doc)"

definition example_scorer :: TranslationComplexityScorer where
  "example_scorer =
     scorer_init None example_textstat example_nlp (\<lambda>text. Inr 5)"

text \<open>A configuration with the three category weights at zero, the rest at its default.\<close>

definition zero_weight_Config :: Config where
  "zero_weight_Config =
     Config_default\<lparr>READABILITY_WEIGHT := 0, LINGUISTIC_WEIGHT := 0, TRANSLATION_WEIGHT := 0\<rparr>"

subsection \<open>The arithmetic mean, as the specification words it\<close>

text \<open>Every value of the set counts with the same weight, one over the number of values.\<close>

definition equal_weight_mean :: "real list \<Rightarrow> real" where
  "equal_weight_mean xs = sum_list (map (\<lambda>x. (1 / real (length xs)) * x) xs)"

subsection \<open>Double-precision arithmetic\<close>

text \<open>
  Where a property depends on rounding, the arithmetic is modelled as the code performs it:
  in IEEE binary64, every operation rounded to the nearest representable number, ties to the
  even significand.
\<close>

text \<open>Rounding to the nearest integer, ties to the even one.\<close>

definition round_half_even :: "real \<Rightarrow> int" where
  "round_half_even x =
     (let f = \<lfloor>x\<rfloor>; r = x - of_int f
      in if r < 1 / 2 then f else if 1 / 2 < r then f + 1 else if even f then f else f + 1)"

text \<open>
  The binade of a positive number \<open>x\<close>: the exponent \<open>e\<close> with \<open>2 ^ e \<le> x < 2 ^ (e + 1)\<close>,
  found by halving a number of at least 2, or doubling a number below 1, until it lies in
  [1, 2).
\<close>

function halvings :: "real \<Rightarrow> nat" where
  "halvings x = (if 2 \<le> x then Suc (halvings (x / 2)) else 0)"
  by pat_completeness auto
termination
proof (relation "measure (\<lambda>x. nat \<lceil>x\<rceil>)")
  show "wf (measure (\<lambda>x. nat \<lceil>x\<rceil>))" by simp
next
  fix x :: real assume "2 \<le> x"
  then have "x / 2 \<le> x - 1" by simp
  then have "\<lceil>x / 2\<rceil> \<le> \<lceil>x - 1\<rceil>" by (rule ceiling_mono)
  also have "\<dots> = \<lceil>x\<rceil> - 1" by simp
  finally have "\<lceil>x / 2\<rceil> < \<lceil>x\<rceil>" by simp
  moreover from \<open>2 \<le> x\<close> have "0 < \<lceil>x\<rceil>" by (simp add: ceiling_less_iff less_ceiling_iff)
  ultimately show "(x / 2, x) \<in> measure (\<lambda>x. nat \<lceil>x\<rceil>)" by simp
qed

function doublings :: "real \<Rightarrow> nat" where
  "doublings x = (if 0 < x \<and> x < 1 then Suc (doublings (2 * x)) else 0)"
  by pat_completeness auto
termination
proof (relation "measure (\<lambda>x. nat \<lceil>1 / x\<rceil>)")
  show "wf (measure (\<lambda>x. nat \<lceil>1 / x\<rceil>))" by simp
next
  fix x :: real assume a: "0 < x \<and> x < 1"
  then have y: "1 < 1 / x" by simp
  have "\<lceil>1 / (2 * x)\<rceil> < \<lceil>1 / x\<rceil>"
  proof (cases "2 \<le> 1 / x")
    case True
    then have "1 / (2 * x) \<le> 1 / x - 1" using a by (simp add: field_simps)
    then have "\<lceil>1 / (2 * x)\<rceil> \<le> \<lceil>1 / x - 1\<rceil>" by (rule ceiling_mono)
    also have "\<dots> = \<lceil>1 / x\<rceil> - 1" by simp
    finally show ?thesis by simp
  next
    case False
    then have "1 / (2 * x) \<le> 1" using a by (simp add: field_simps)
    then have "\<lceil>1 / (2 * x)\<rceil> \<le> 1" by (simp add: ceiling_le_iff)
    moreover from y have "1 < \<lceil>1 / x\<rceil>" by (simp add: less_ceiling_iff)
    ultimately show ?thesis by linarith
  qed
  moreover from y have "0 < \<lceil>1 / x\<rceil>" by (simp only: less_ceiling_iff)
  ultimately show "(2 * x, x) \<in> measure (\<lambda>x. nat \<lceil>1 / x\<rceil>)" by simp
qed

declare halvings.simps [simp del] doublings.simps [simp del]

definition binade :: "real \<Rightarrow> int" where
  "binade x = (if 1 \<le> x then int (halvings x) else - int (doublings x))"

text \<open>
  The exponent of the unit in the last place: 52 binary places below the binade, and never
  below -1074, the spacing of the subnormal numbers.
\<close>

definition ulp_exponent :: "real \<Rightarrow> int" where
  "ulp_exponent x = max (binade \<bar>x\<bar> - 52) (- 1074)"

text \<open>
  The binary64 number nearest to a real. Magnitudes of \<open>2 ^ 1024\<close> and more, which round to
  infinity, are not modelled; no number in the scorer comes near them.
\<close>

definition binary64 :: "real \<Rightarrow> real" where
  "binary64 x =
     (if x = 0 then 0
      else of_int (round_half_even (x / 2 powi ulp_exponent x)) * 2 powi ulp_exponent x)"

text \<open>
  \<open>np.mean\<close> in doubles: the sum of the values divided by their number. numpy adds fewer
  than eight values one by one from left to right, starting from 0, as here; from eight
  values on it adds them in blocks, which this definition does not follow. The category
  sets of the scorer have five, four and three values.
\<close>

definition np_sum_binary64 :: "real list \<Rightarrow> real" where
  "np_sum_binary64 xs = foldl (\<lambda>res x. binary64 (res + x)) 0 xs"

definition np_mean_binary64 :: "real list \<Rightarrow> pyfloat" where
  "np_mean_binary64 xs =
     (if xs = [] then NaN else Num (binary64 (np_sum_binary64 xs / real (length xs))))"

definition category_average_binary64 :: "real dict \<Rightarrow> pyfloat" where
  "category_average_binary64 scores = np_mean_binary64 (dict_values scores)"

text \<open>
  The readability provider in doubles: the clamps are exact, each division and the
  subtraction are rounded.
\<close>

definition normalize_scores_binary64 :: "real dict \<Rightarrow> real dict" where
  "normalize_scores_binary64 scores =
     fold (\<lambda>(metric, score) normalized_scores.
             if metric = ''flesch_reading_ease''
             then dict_setitem normalized_scores metric (binary64 (1 - binary64 (score / 120)))
             else dict_setitem normalized_scores metric (binary64 (score / 25)))
          scores []"

definition readability_try_binary64 :: "textstat \<Rightarrow> string \<Rightarrow> py_exception + real dict" where
  "readability_try_binary64 ts text =
     (case flesch_kincaid_grade ts text of Inl e \<Rightarrow> Inl e | Inr fk \<Rightarrow>
      (case coleman_liau_index ts text of Inl e \<Rightarrow> Inl e | Inr cl \<Rightarrow>
       (case gunning_fog ts text of Inl e \<Rightarrow> Inl e | Inr gf \<Rightarrow>
        (case smog_index ts text of Inl e \<Rightarrow> Inl e | Inr sm \<Rightarrow>
         (case flesch_reading_ease ts text of Inl e \<Rightarrow> Inl e | Inr fre \<Rightarrow>
            Inr (normalize_scores_binary64
                   [(''flesch_kincaid'', max 0 (min 20 fk)),
                    (''coleman_liau'', max 0 (min 20 cl)),
                    (''gunning_fog'', max 0 (min 20 gf)),
                    (''smog'', max 0 (min 20 sm)),
                    (''flesch_reading_ease'', max 0 (min 100 fre))]))))))"

definition readability_score_binary64 :: "textstat \<Rightarrow> string \<Rightarrow> real dict" where
  "readability_score_binary64 ts text =
     (case readability_try_binary64 ts text of Inr normalized_scores \<Rightarrow> normalized_scores
      | Inl e \<Rightarrow> readability_default)"

section \<open>Properties\<close>

subsection \<open>Auxiliary facts\<close>

lemma then_do_simps:
  "then_do (Returns v) f = f v"
  "then_do (Raises e) f = Raises e"
  "then_do Diverges f = Diverges"
  by (simp_all add: then_do_def)

lemma weights_getitem:
  "dict_getitem (get_metric_weights c) ''readability'' = Returns (READABILITY_WEIGHT c)"
  "dict_getitem (get_metric_weights c) ''linguistic'' = Returns (LINGUISTIC_WEIGHT c)"
  "dict_getitem (get_metric_weights c) ''translation'' = Returns (TRANSLATION_WEIGHT c)"
  by (simp_all add: dict_getitem_def get_metric_weights_def)

lemma calculate_overall_score_unfold:
  "calculate_overall_score c rs ls ts =
     then_do (np_average [category_average rs, category_average ls, category_average ts]
                [READABILITY_WEIGHT c, LINGUISTIC_WEIGHT c, TRANSLATION_WEIGHT c])
       (\<lambda>average. Returns (np_clip average 0 1))"
  by (simp add: calculate_overall_score_def Let_def weights_getitem then_do_simps)

lemma np_clip_unit: "np_clip a 0 1 = Num v \<Longrightarrow> 0 \<le> v \<and> v \<le> 1"
  by (cases a) (auto simp: np_clip_def)

lemma overall_result_cases:
  "calculate_overall_score c rs ls ts = Raises ZeroDivisionError
   \<or> (\<exists>a. calculate_overall_score c rs ls ts = Returns (np_clip a 0 1))"
  by (auto simp: calculate_overall_score_unfold np_average_def Let_def then_do_simps
      split: option.splits)

lemma overall_returns_bounded:
  "calculate_overall_score c rs ls ts = Returns (Num v) \<Longrightarrow> 0 \<le> v \<and> v \<le> 1"
  using overall_result_cases [of c rs ls ts] np_clip_unit by auto

lemma category_average_Num:
  "d \<noteq> [] \<Longrightarrow> category_average d = Num (sum_list (dict_values d) / real (length d))"
  by (simp add: category_average_def np_mean_def dict_values_def)

lemma overall_nonempty:
  assumes "rs \<noteq> []" "ls \<noteq> []" "ts \<noteq> []"
    and "READABILITY_WEIGHT c + LINGUISTIC_WEIGHT c + TRANSLATION_WEIGHT c \<noteq> 0"
  shows "calculate_overall_score c rs ls ts =
    Returns (Num (min (max ((sum_list (dict_values rs) / real (length rs) * READABILITY_WEIGHT c
                           + sum_list (dict_values ls) / real (length ls) * LINGUISTIC_WEIGHT c
                           + sum_list (dict_values ts) / real (length ts) * TRANSLATION_WEIGHT c)
                          / (READABILITY_WEIGHT c + LINGUISTIC_WEIGHT c + TRANSLATION_WEIGHT c)) 0) 1))"
  using assms
  by (simp add: calculate_overall_score_unfold category_average_Num np_average_def Let_def
      then_do_simps np_clip_def add.assoc)


lemma overall_returns_Num:
  assumes "calculate_overall_score c rs ls ts = Returns x" "rs \<noteq> []" "ls \<noteq> []" "ts \<noteq> []"
  shows "\<exists>v. x = Num v \<and> 0 \<le> v \<and> v \<le> 1"
proof -
  have "READABILITY_WEIGHT c + LINGUISTIC_WEIGHT c + TRANSLATION_WEIGHT c \<noteq> 0"
    using assms(1)
    by (auto simp: calculate_overall_score_unfold np_average_def Let_def then_do_simps)
  from overall_nonempty [OF assms(2-4) this] assms(1) obtain v where "x = Num v"
    by auto
  with assms(1) overall_returns_bounded show ?thesis by blast
qed

lemma normalize_scores_five:
  "normalize_scores [(''flesch_kincaid'', a), (''coleman_liau'', b), (''gunning_fog'', c),
                     (''smog'', d), (''flesch_reading_ease'', e)] =
     [(''flesch_kincaid'', a / 25), (''coleman_liau'', b / 25), (''gunning_fog'', c / 25),
      (''smog'', d / 25), (''flesch_reading_ease'', 1 - e / 120)]"
  by (simp add: normalize_scores_def)

lemma readability_score_length: "length (readability_score ts text) = 5"
  by (simp add: readability_score_def readability_try_def normalize_scores_five
      readability_default_def split: sum.splits)

lemma linguistic_score_length: "linguistic_score nlp_of text = Returns d \<Longrightarrow> length d = 4"
  by (auto simp: linguistic_score_def then_do_def Let_def split: outcome.splits)

lemma translation_score_length: "translation_score norm_of text = Returns d \<Longrightarrow> length d = 3"
  by (auto simp: translation_score_def then_do_def split: outcome.splits)

lemma map_of_dict_setitem: "map_of (dict_setitem d k v) k = Some v"
  by (induction d) auto

lemma score_text_Returns:
  assumes "score_text self text = Returns scores"
  shows "\<exists>ls ts overall base.
           linguistic_score (nlp self) text = Returns ls
         \<and> translation_score (embedding_norm self) text = Returns ts
         \<and> calculate_overall_score (config self) (readability_score (readability_metrics self) text) ls ts
             = Returns overall
         \<and> scores = dict_setitem base ''overall_complexity'' overall"
  using assms
  by (auto simp: score_text_def Let_def then_do_def split: outcome.splits)

lemma score_text_overall:
  assumes "score_text self text = Returns scores"
  shows "\<exists>v. map_of scores ''overall_complexity'' = Some (Num v) \<and> 0 \<le> v \<and> v \<le> 1"
proof -
  from score_text_Returns [OF assms] obtain ls ts overall base where
    l: "linguistic_score (nlp self) text = Returns ls" and
    t: "translation_score (embedding_norm self) text = Returns ts" and
    ov: "calculate_overall_score (config self) (readability_score (readability_metrics self) text) ls ts
             = Returns overall" and
    sc: "scores = dict_setitem base ''overall_complexity'' overall"
    by blast
  have "readability_score (readability_metrics self) text \<noteq> []"
    using readability_score_length [of "readability_metrics self" "text"] by auto
  moreover have "ls \<noteq> []" using linguistic_score_length [OF l] by auto
  moreover have "ts \<noteq> []" using translation_score_length [OF t] by auto
  ultimately obtain v where "overall = Num v" "0 \<le> v" "v \<le> 1"
    using overall_returns_Num [OF ov] by blast
  then show ?thesis by (auto simp: sc map_of_dict_setitem)
qed

lemma example_linguistic:
  "linguistic_score example_nlp ''The cat sat.'' =
     Returns [(''avg_sentence_length'', 2 / 15), (''lexical_diversity'', 3 / 5),
              (''syntactic_complexity'', 1 / 5), (''vocabulary_rarity'', 1 / 3)]"
  by (simp add: linguistic_score_def example_nlp_def example_Doc_def call_def then_do_simps
      calculate_avg_sentence_length_def generator_truth_def py_truediv_def
      calculate_lexical_diversity_def calculate_syntactic_complexity_def
      calculate_vocabulary_rarity_def py_lower_def lower_char_def common_words_def
      sent_max_depth_def head_depth.simps Let_def upt_rec)

lemma example_translation:
  "translation_score (\<lambda>text. Inr 5) ''The cat sat.'' =
     Returns [(''semantic_complexity'', 1 / 2), (''idiomatic_density'', 0),
              (''domain_specificity'', 2 / 3)]"
  by (simp add: translation_score_def calculate_semantic_complexity_def call_def then_do_simps
      calculate_idiomatic_density_def calculate_domain_specificity_def py_split_def
      py_lower_def lower_char_def is_space_def common_idioms_def common_terms_def Let_def upt_rec)


lemma example_readability:
  "readability_score example_textstat t =
     [(''flesch_kincaid'', 0), (''coleman_liau'', 1 / 5), (''gunning_fog'', 2 / 5),
      (''smog'', 4 / 5), (''flesch_reading_ease'', 1 / 6)]"
  by (simp add: readability_score_def readability_try_def example_textstat_def
      normalize_scores_five)

lemma example_score_text:
  "score_text example_scorer ''The cat sat.'' =
     Returns [(''flesch_kincaid'', Num 0), (''coleman_liau'', Num (1 / 5)),
              (''gunning_fog'', Num (2 / 5)), (''smog'', Num (4 / 5)),
              (''flesch_reading_ease'', Num (1 / 6)),
              (''avg_sentence_length'', Num (2 / 15)),
              (''lexical_diversity'', Num (3 / 5)),
              (''syntactic_complexity'', Num (1 / 5)),
              (''vocabulary_rarity'', Num (1 / 3)),
              (''semantic_complexity'', Num (1 / 2)), (''idiomatic_density'', Num 0),
              (''domain_specificity'', Num (2 / 3)),
              (''overall_complexity'', Num (253 / 750))]"
  by (simp add: score_text_def example_scorer_def scorer_init_def example_readability
      example_linguistic example_translation then_do_simps as_floats_def dict_update_def
      calculate_overall_score_unfold category_average_def np_mean_def dict_values_def
      np_average_def np_clip_def Config_default_def Let_def)

lemma sum_list_divided: "sum_list (map (\<lambda>x. x / c) xs) = sum_list (xs :: real list) / c"
  by (induction xs) (simp_all add: add_divide_distrib)

lemma equal_weight_mean_eq:
  "equal_weight_mean xs = sum_list xs / real (length xs)"
  by (simp add: equal_weight_mean_def sum_list_divided)

lemma dict_setitem_fresh: "k \<notin> fst ` set acc \<Longrightarrow> dict_setitem acc k v = acc @ [(k, v)]"
  by (induction acc) auto

lemma fold_setitem_distinct:
  "distinct (map fst scores) \<Longrightarrow> fst ` set acc \<inter> fst ` set scores = {} \<Longrightarrow>
   fold (\<lambda>(metric, score) normalized_scores. dict_setitem normalized_scores metric (g metric score))
        scores acc
   = acc @ map (\<lambda>(metric, score). (metric, g metric score)) scores"
proof (induction scores arbitrary: acc)
  case Nil
  then show ?case by simp
next
  case (Cons p scores)
  obtain k v where p: "p = (k, v)" by (cases p)
  from Cons.prems have fresh: "k \<notin> fst ` set acc" and
    d: "distinct (map fst scores)" and
    disj: "fst ` set (acc @ [(k, g k v)]) \<inter> fst ` set scores = {}"
    by (auto simp: p)
  show ?case
    using Cons.IH [OF d disj] by (simp add: p dict_setitem_fresh [OF fresh])
qed

lemma normalize_scores_distinct:
  assumes "distinct (map fst scores)"
  shows "normalize_scores scores =
     map (\<lambda>(metric, score).
            (metric, if metric = ''flesch_reading_ease'' then 1 - score / 120 else score / 25))
         scores"
proof -
  have "normalize_scores scores =
     fold (\<lambda>(metric, score) normalized_scores. dict_setitem normalized_scores metric
             (if metric = ''flesch_reading_ease'' then 1 - score / 120 else score / 25))
          scores []"
    unfolding normalize_scores_def
    by (rule arg_cong [where f = "\<lambda>f. fold f scores []"]) (auto simp: fun_eq_iff)
  also have "\<dots> = [] @ map (\<lambda>(metric, score).
            (metric, if metric = ''flesch_reading_ease'' then 1 - score / 120 else score / 25))
         scores"
    by (rule fold_setitem_distinct [OF assms]) simp
  finally show ?thesis by simp
qed

lemma readability_score_success:
  assumes "flesch_kincaid_grade ts t = Inr fk" "coleman_liau_index ts t = Inr cl"
    "gunning_fog ts t = Inr gf" "smog_index ts t = Inr sm" "flesch_reading_ease ts t = Inr fre"
  shows "readability_score ts t =
     [(''flesch_kincaid'', max 0 (min 20 fk) / 25), (''coleman_liau'', max 0 (min 20 cl) / 25),
      (''gunning_fog'', max 0 (min 20 gf) / 25), (''smog'', max 0 (min 20 sm) / 25),
      (''flesch_reading_ease'', 1 - max 0 (min 100 fre) / 120)]"
  using assms
  by (simp add: readability_score_def readability_try_def normalize_scores_five)

lemma linguistic_score_success:
  assumes "nlp_of t = Inr doc" "calculate_avg_sentence_length doc = Returns a"
    "calculate_syntactic_complexity doc = Returns s"
  shows "linguistic_score nlp_of t =
     Returns [(''avg_sentence_length'', min (a / 30) 1),
              (''lexical_diversity'', calculate_lexical_diversity doc * (6 / 10)),
              (''syntactic_complexity'', min (s / 10) 1),
              (''vocabulary_rarity'', calculate_vocabulary_rarity doc * (5 / 10))]"
  using assms by (simp add: linguistic_score_def call_def then_do_simps Let_def)

lemma translation_score_success:
  assumes "norm_of t = Inr x"
  shows "translation_score norm_of t =
     Returns [(''semantic_complexity'', min (x / 10) 1),
              (''idiomatic_density'', calculate_idiomatic_density t),
              (''domain_specificity'', calculate_domain_specificity t)]"
  using assms
  by (simp add: translation_score_def calculate_semantic_complexity_def call_def then_do_simps)

lemma idiomatic_density_unit:
  "0 \<le> calculate_idiomatic_density t \<and> calculate_idiomatic_density t \<le> 1"
  by (simp add: calculate_idiomatic_density_def Let_def)

lemma filter_ratio_unit:
  "ws \<noteq> [] \<Longrightarrow> 0 \<le> real (length (filter P ws)) / real (length ws)
     \<and> real (length (filter P ws)) / real (length ws) \<le> 1"
  by (simp add: divide_le_eq_1)

lemma domain_specificity_unit:
  "0 \<le> calculate_domain_specificity t \<and> calculate_domain_specificity t \<le> 1"
  using filter_ratio_unit [of "py_split (py_lower t)" "\<lambda>w. w \<notin> set common_terms"]
  by (simp add: calculate_domain_specificity_def Let_def)

lemma example_Doc_raw:
  "calculate_avg_sentence_length example_Doc = Returns 4"
  "calculate_syntactic_complexity example_Doc = Returns 2"
  "calculate_lexical_diversity example_Doc = 1"
  "calculate_vocabulary_rarity example_Doc = 2 / 3"
  by (simp_all add: example_Doc_def
      calculate_avg_sentence_length_def generator_truth_def py_truediv_def
      calculate_lexical_diversity_def calculate_syntactic_complexity_def
      calculate_vocabulary_rarity_def py_lower_def lower_char_def common_words_def
      sent_max_depth_def head_depth.simps Let_def upt_rec)

lemma example_idioms:
  "calculate_idiomatic_density ''Kick the bucket now it rains'' = 1 / 2"
  "calculate_domain_specificity ''Kick the bucket now it rains'' = 2 / 3"
  by (simp_all add: calculate_idiomatic_density_def calculate_domain_specificity_def py_split_def
      py_lower_def lower_char_def is_space_def common_idioms_def common_terms_def Let_def upt_rec)

lemma batch_score_Returns_D:
  "batch_score self texts = Returns bundles \<Longrightarrow>
     list_all2 (\<lambda>t b. score_text self t = Returns b) texts bundles"
proof (induction texts arbitrary: bundles)
  case Nil
  then show ?case by simp
next
  case (Cons t texts)
  from Cons.prems obtain b rest where
    b: "score_text self t = Returns b" and rest: "batch_score self texts = Returns rest" and
    bs: "bundles = b # rest"
    by (auto simp: then_do_def split: outcome.splits)
  from Cons.IH [OF rest] b show ?case by (simp add: bs)
qed

lemma batch_score_Returns_I:
  "list_all2 (\<lambda>t b. score_text self t = Returns b) texts bundles \<Longrightarrow>
     batch_score self texts = Returns bundles"
  by (induction rule: list_all2_induct) (simp_all add: then_do_simps)

lemma batch_score_Returns_iff:
  "batch_score self texts = Returns bundles \<longleftrightarrow>
     list_all2 (\<lambda>t b. score_text self t = Returns b) texts bundles"
  using batch_score_Returns_D batch_score_Returns_I by blast

lemma batch_score_Raises_iff:
  "batch_score self texts = Raises e \<longleftrightarrow>
     (\<exists>i<length texts. score_text self (texts ! i) = Raises e
         \<and> (\<forall>j<i. \<exists>b. score_text self (texts ! j) = Returns b))"
proof (induction texts)
  case Nil
  then show ?case by simp
next
  case (Cons t texts)
  show ?case
  proof (cases "score_text self t")
    case (Returns b)
    have "batch_score self (t # texts) = Raises e \<longleftrightarrow> batch_score self texts = Raises e"
      by (simp add: Returns then_do_def split: outcome.splits)
    also have "\<dots> \<longleftrightarrow> (\<exists>i<length texts. score_text self (texts ! i) = Raises e
         \<and> (\<forall>j<i. \<exists>b. score_text self (texts ! j) = Returns b))"
      by (rule Cons.IH)
    also have "\<dots> \<longleftrightarrow> (\<exists>i<length (t # texts). score_text self ((t # texts) ! i) = Raises e
         \<and> (\<forall>j<i. \<exists>b. score_text self ((t # texts) ! j) = Returns b))"
      (is "?L \<longleftrightarrow> ?R")
    proof
      assume ?L
      then obtain i where i: "i < length texts" "score_text self (texts ! i) = Raises e"
        "\<forall>j<i. \<exists>b. score_text self (texts ! j) = Returns b" by blast
      have "\<forall>j<Suc i. \<exists>b. score_text self ((t # texts) ! j) = Returns b"
        using i(3) Returns by (auto simp: nth_Cons split: nat.splits)
      with i(1,2) show ?R by (intro exI [of _ "Suc i"]) simp
    next
      assume ?R
      then obtain i where i: "i < length (t # texts)" "score_text self ((t # texts) ! i) = Raises e"
        "\<forall>j<i. \<exists>b. score_text self ((t # texts) ! j) = Returns b" by blast
      from i(2) Returns obtain k where k: "i = Suc k" by (cases i) auto
      have "\<forall>j<k. \<exists>b. score_text self (texts ! j) = Returns b"
      proof (intro allI impI)
        fix j assume "j < k"
        then have "Suc j < i" by (simp add: k)
        with i(3) show "\<exists>b. score_text self (texts ! j) = Returns b" by fastforce
      qed
      with i(1,2) k show ?L by (intro exI [of _ k]) simp
    qed
    finally show ?thesis .
  next
    case (Raises e')
    have "batch_score self (t # texts) = Raises e \<longleftrightarrow> e' = e"
      by (simp add: Raises then_do_def)
    moreover have "(\<exists>i<length (t # texts). score_text self ((t # texts) ! i) = Raises e
         \<and> (\<forall>j<i. \<exists>b. score_text self ((t # texts) ! j) = Returns b)) \<longleftrightarrow> e' = e"
    proof
      assume "\<exists>i<length (t # texts). score_text self ((t # texts) ! i) = Raises e
         \<and> (\<forall>j<i. \<exists>b. score_text self ((t # texts) ! j) = Returns b)"
      then obtain i where i: "score_text self ((t # texts) ! i) = Raises e"
        "\<forall>j<i. \<exists>b. score_text self ((t # texts) ! j) = Returns b" by blast
      have "i = 0"
      proof (rule ccontr)
        assume "i \<noteq> 0"
        then have "0 < i" by simp
        with i(2) obtain b where "score_text self ((t # texts) ! 0) = Returns b" by blast
        with Raises show False by simp
      qed
      with i(1) Raises show "e' = e" by simp
    next
      assume "e' = e"
      with Raises show "\<exists>i<length (t # texts). score_text self ((t # texts) ! i) = Raises e
         \<and> (\<forall>j<i. \<exists>b. score_text self ((t # texts) ! j) = Returns b)"
        by (intro exI [of _ 0]) simp
    qed
    ultimately show ?thesis by simp
  next
    case Diverges
    have "batch_score self (t # texts) \<noteq> Raises e"
      by (simp add: Diverges then_do_def)
    moreover have "\<not> (\<exists>i<length (t # texts). score_text self ((t # texts) ! i) = Raises e
         \<and> (\<forall>j<i. \<exists>b. score_text self ((t # texts) ! j) = Returns b))"
    proof
      assume "\<exists>i<length (t # texts). score_text self ((t # texts) ! i) = Raises e
         \<and> (\<forall>j<i. \<exists>b. score_text self ((t # texts) ! j) = Returns b)"
      then obtain i where i: "score_text self ((t # texts) ! i) = Raises e"
        "\<forall>j<i. \<exists>b. score_text self ((t # texts) ! j) = Returns b" by blast
      show False
      proof (cases i)
        case 0
        with i(1) Diverges show False by simp
      next
        case (Suc k)
        then have "0 < i" by simp
        with i(2) obtain b where "score_text self ((t # texts) ! 0) = Returns b" by blast
        with Diverges show False by simp
      qed
    qed
    ultimately show ?thesis by simp
  qed
qed

lemma example_translation_idiom:
  "translation_score (\<lambda>text. Inr 5) ''Kick the bucket now it rains'' =
     Returns [(''semantic_complexity'', 1 / 2), (''idiomatic_density'', 1 / 2),
              (''domain_specificity'', 2 / 3)]"
  by (simp add: translation_score_success example_idioms)

lemma example_linguistic_any:
  "t \<noteq> [] \<Longrightarrow> linguistic_score example_nlp t =
     Returns [(''avg_sentence_length'', 2 / 15), (''lexical_diversity'', 3 / 5),
              (''syntactic_complexity'', 1 / 5), (''vocabulary_rarity'', 1 / 3)]"
  using linguistic_score_success [of example_nlp t example_Doc 4 2]
  by (simp add: example_nlp_def example_Doc_raw)

lemma example_score_text_idiom:
  "score_text example_scorer ''Kick the bucket now it rains'' =
     Returns [(''flesch_kincaid'', Num 0), (''coleman_liau'', Num (1 / 5)),
              (''gunning_fog'', Num (2 / 5)), (''smog'', Num (4 / 5)),
              (''flesch_reading_ease'', Num (1 / 6)),
              (''avg_sentence_length'', Num (2 / 15)),
              (''lexical_diversity'', Num (3 / 5)),
              (''syntactic_complexity'', Num (1 / 5)),
              (''vocabulary_rarity'', Num (1 / 3)),
              (''semantic_complexity'', Num (1 / 2)),
              (''idiomatic_density'', Num (1 / 2)),
              (''domain_specificity'', Num (2 / 3)),
              (''overall_complexity'', Num (581 / 1500))]"
  by (simp add: score_text_def example_scorer_def scorer_init_def example_readability
      example_linguistic_any example_translation_idiom then_do_simps as_floats_def dict_update_def
      calculate_overall_score_unfold category_average_def np_mean_def dict_values_def
      np_average_def np_clip_def Config_default_def Let_def)

lemma score_text_no_sentences:
  assumes "nlp self t = Inr doc" "sents doc = []"
  shows "score_text self t = Raises ZeroDivisionError"
  using assms
  by (simp add: score_text_def linguistic_score_def call_def then_do_simps Let_def
      calculate_avg_sentence_length_def generator_truth_def py_truediv_def)

lemma example_score_text_empty: "score_text example_scorer '''' = Raises ZeroDivisionError"
  by (rule score_text_no_sentences [of _ _ empty_Doc])
    (simp_all add: example_scorer_def scorer_init_def example_nlp_def empty_Doc_def)

lemma round_half_even_cases:
  "round_half_even x = \<lfloor>x\<rfloor> \<or> round_half_even x = \<lfloor>x\<rfloor> + 1"
  by (simp add: round_half_even_def Let_def)

lemma round_half_even_error: "\<bar>of_int (round_half_even x) - x\<bar> \<le> 1 / 2"
proof -
  have "of_int \<lfloor>x\<rfloor> \<le> x" "x < of_int \<lfloor>x\<rfloor> + 1" by linarith+
  then show ?thesis
    by (auto simp: round_half_even_def Let_def)
qed

lemma round_half_even_of_int: "round_half_even (of_int n) = n"
  by (simp add: round_half_even_def Let_def)

lemma round_half_even_mono:
  assumes "x \<le> y"
  shows "round_half_even x \<le> round_half_even y"
proof (cases "\<lfloor>x\<rfloor> < \<lfloor>y\<rfloor>")
  case True
  have "round_half_even x \<le> \<lfloor>x\<rfloor> + 1" using round_half_even_cases [of x] by auto
  also have "\<dots> \<le> \<lfloor>y\<rfloor>" using True by simp
  also have "\<dots> \<le> round_half_even y" using round_half_even_cases [of y] by auto
  finally show ?thesis .
next
  case False
  moreover have "\<lfloor>x\<rfloor> \<le> \<lfloor>y\<rfloor>" using assms by (rule floor_mono)
  ultimately have eq: "\<lfloor>x\<rfloor> = \<lfloor>y\<rfloor>" by simp
  with assms show ?thesis
    by (auto simp: round_half_even_def Let_def)
qed

lemma halvings_spec: "1 \<le> x \<Longrightarrow> 2 ^ halvings x \<le> x \<and> x < 2 ^ (halvings x + 1)"
proof (induction x rule: halvings.induct)
  case (1 x)
  show ?case
  proof (cases "2 \<le> x")
    case True
    then have "1 \<le> x / 2" by simp
    from "1.IH" [OF True this] have "2 ^ halvings (x / 2) \<le> x / 2" "x / 2 < 2 ^ (halvings (x / 2) + 1)"
      by auto
    moreover have "halvings x = Suc (halvings (x / 2))"
      using True by (subst halvings.simps) simp
    ultimately show ?thesis by simp
  next
    case False
    then have "halvings x = 0" by (subst halvings.simps) simp
    with False "1.prems" show ?thesis by simp
  qed
qed

lemma doublings_spec:
  "0 < x \<Longrightarrow> x < 1 \<Longrightarrow> 1 \<le> x * 2 ^ doublings x \<and> x * 2 ^ doublings x < 2"
proof (induction x rule: doublings.induct)
  case (1 x)
  have d: "doublings x = Suc (doublings (2 * x))"
    using "1.prems" by (subst doublings.simps) simp
  show ?case
  proof (cases "2 * x < 1")
    case True
    from "1.IH" "1.prems" True have "1 \<le> 2 * x * 2 ^ doublings (2 * x)"
      "2 * x * 2 ^ doublings (2 * x) < 2" by auto
    then show ?thesis by (simp add: d mult.assoc)
  next
    case False
    then have "doublings (2 * x) = 0" by (subst doublings.simps) simp
    with False "1.prems" show ?thesis by (simp add: d)
  qed
qed

lemma binade_spec:
  assumes "0 < x"
  shows "2 powi binade x \<le> x \<and> x < 2 powi (binade x + 1)"
proof (cases "1 \<le> x")
  case True
  then have "binade x = int (halvings x)" by (simp add: binade_def)
  moreover have "int (halvings x) + 1 = int (halvings x + 1)" by simp
  ultimately show ?thesis
    using halvings_spec [OF True] by (simp only: power_int_of_nat) 
next
  case False
  then have lt: "x < 1" by simp
  have b: "binade x = - int (doublings x)" using False by (simp add: binade_def)
  from doublings_spec [OF assms lt] have
    lo: "1 \<le> x * 2 ^ doublings x" and hi: "x * 2 ^ doublings x < 2" by auto
  have p: "(2::real) powi (- int (doublings x)) = 1 / 2 ^ doublings x"
    by (simp add: power_int_minus_divide)
  have "(2::real) powi (- int (doublings x) + 1) = 2 powi (- int (doublings x)) * 2 powi 1"
    by (rule power_int_add) simp
  also have "\<dots> = 1 / 2 ^ doublings x * 2" by (simp only: p power_int_1_right)
  finally have p1: "(2::real) powi (- int (doublings x) + 1) = 2 / 2 ^ doublings x" by simp
  from lo have "1 / 2 ^ doublings x \<le> x" by (simp add: field_simps)
  moreover from hi have "x < 2 / 2 ^ doublings x" by (simp add: field_simps)
  ultimately show ?thesis by (simp only: b p p1) 
qed

lemma binade_unique:
  assumes "0 < x" "2 powi e \<le> x" "x < 2 powi (e + 1)"
  shows "binade x = e"
proof -
  from binade_spec [OF assms(1)] have
    lo: "2 powi binade x \<le> x" and hi: "x < 2 powi (binade x + 1)" by auto
  have "(2::real) powi binade x < 2 powi (e + 1)" using lo assms(3) by simp
  then have "binade x < e + 1"
    using power_int_increasing [of "e + 1" "binade x" "2::real"] by (cases "binade x < e + 1") auto
  moreover have "(2::real) powi e < 2 powi (binade x + 1)" using assms(2) hi by simp
  then have "e < binade x + 1"
    using power_int_increasing [of "binade x + 1" e "2::real"] by (cases "e < binade x + 1") auto
  ultimately show ?thesis by simp
qed

lemma binade_mono:
  assumes "0 < x" "x \<le> y"
  shows "binade x \<le> binade y"
proof -
  from assms have y: "0 < y" by simp
  have "(2::real) powi binade x \<le> x" using binade_spec [OF assms(1)] by simp
  also have "\<dots> \<le> y" by fact
  also have "\<dots> < 2 powi (binade y + 1)" using binade_spec [OF y] by simp
  finally have "(2::real) powi binade x < 2 powi (binade y + 1)" .
  then have "binade x < binade y + 1"
    using power_int_increasing [of "binade y + 1" "binade x" "2::real"]
    by (cases "binade x < binade y + 1") auto
  then show ?thesis by simp
qed

lemma binary64_pos_eq:
  "0 < x \<Longrightarrow> binary64 x =
     of_int (round_half_even (x / 2 powi ulp_exponent x)) * 2 powi ulp_exponent x"
  by (simp add: binary64_def)

lemma binary64_zero: "binary64 0 = 0"
  by (simp add: binary64_def)

lemma binary64_nonneg:
  assumes "0 \<le> x"
  shows "0 \<le> binary64 x"
proof (cases "x = 0")
  case True
  then show ?thesis by (simp add: binary64_zero)
next
  case False
  with assms have x: "0 < x" by simp
  have "0 \<le> x / 2 powi ulp_exponent x" using x by simp
  from round_half_even_mono [OF this] have "0 \<le> round_half_even (x / 2 powi ulp_exponent x)"
    using round_half_even_of_int [of 0] by simp
  then show ?thesis by (simp add: binary64_pos_eq [OF x])
qed

text \<open>The rounding error: half a unit in the last place.\<close>

lemma binary64_error_ulp:
  assumes "0 < x"
  shows "\<bar>binary64 x - x\<bar> \<le> 2 powi ulp_exponent x / 2"
proof -
  let ?q = "ulp_exponent x"
  let ?z = "x / 2 powi ?q"
  have p: "0 < (2::real) powi ?q" by simp
  have "binary64 x - x = (of_int (round_half_even ?z) - ?z) * 2 powi ?q"
    using p by (simp add: binary64_pos_eq [OF assms] algebra_simps)
  then have "\<bar>binary64 x - x\<bar> = \<bar>of_int (round_half_even ?z) - ?z\<bar> * 2 powi ?q"
    using p by (simp add: abs_mult)
  also have "\<dots> \<le> (1 / 2) * 2 powi ?q"
    using round_half_even_error [of ?z] p by (intro mult_right_mono) auto
  finally show ?thesis by simp
qed

lemma binary64_error:
  assumes "0 \<le> x"
  shows "\<bar>binary64 x - x\<bar> \<le> x / 2 ^ 53 + 1 / 2 ^ 1075"
proof (cases "x = 0")
  case True
  then show ?thesis by (simp add: binary64_zero)
next
  case False
  with assms have x: "0 < x" by simp
  have ax: "\<bar>x\<bar> = x" using x by simp
  show ?thesis
  proof (cases "- 1074 \<le> binade x - 52")
    case True
    then have q: "ulp_exponent x = binade x - 52" by (simp add: ulp_exponent_def ax)
    have "(2::real) powi (binade x - 52) = 2 powi binade x / 2 ^ 52"
      by (simp add: power_int_diff)
    then have "(2::real) powi ulp_exponent x / 2 = 2 powi binade x / 2 ^ 53"
      by (simp add: q)
    also have "\<dots> \<le> x / 2 ^ 53"
      using binade_spec [OF x] by (simp add: divide_right_mono)
    finally have "(2::real) powi ulp_exponent x / 2 \<le> x / 2 ^ 53" .
    with binary64_error_ulp [OF x] show ?thesis by simp
  next
    case False
    then have q: "ulp_exponent x = - 1074" by (simp add: ulp_exponent_def ax)
    have "(2::real) powi (- 1074) / 2 = 1 / 2 ^ 1075"
      by (simp add: power_int_minus_divide)
    with binary64_error_ulp [OF x] x show ?thesis by (simp add: q)
  qed
qed

lemma binary64_mono_pos:
  assumes "0 < x" "x \<le> y"
  shows "binary64 x \<le> binary64 y"
proof -
  from assms have y: "0 < y" by simp
  have ax: "\<bar>x\<bar> = x" "\<bar>y\<bar> = y" using assms y by simp_all
  let ?qx = "ulp_exponent x" and ?qy = "ulp_exponent y"
  have qle: "?qx \<le> ?qy"
    using binade_mono [OF assms] by (simp add: ulp_exponent_def ax)
  show ?thesis
  proof (cases "?qx = ?qy")
    case True
    have "x / 2 powi ?qx \<le> y / 2 powi ?qx" using assms by (simp add: divide_right_mono)
    from round_half_even_mono [OF this] show ?thesis
      by (simp add: binary64_pos_eq [OF assms(1)] binary64_pos_eq [OF y] True)
  next
    case False
    with qle have lt: "?qx < ?qy" by simp
    then have qy: "?qy = binade y - 52" by (auto simp: ulp_exponent_def ax)
    have bx: "binade x < binade y" using lt qy by (auto simp: ulp_exponent_def ax)
    let ?T = "(2::real) powi binade y"
    \<comment> \<open>the larger argument rounds to at least the bottom of its binade\<close>
    have "?T / 2 powi ?qy = 2 powi (binade y - ?qy)" by (simp add: power_int_diff)
    also have "\<dots> = of_int (2 ^ 52)" by (simp add: qy)
    finally have Ty: "?T / 2 powi ?qy = of_int (2 ^ 52)" .
    have "?T / 2 powi ?qy \<le> y / 2 powi ?qy"
      using binade_spec [OF y] by (simp add: divide_right_mono)
    from round_half_even_mono [OF this] have "2 ^ 52 \<le> round_half_even (y / 2 powi ?qy)"
      by (simp only: Ty round_half_even_of_int)
    then have "of_int (2 ^ 52) * 2 powi ?qy \<le> binary64 y"
      by (simp add: binary64_pos_eq [OF y])
    moreover have "of_int (2 ^ 52) * 2 powi ?qy = ?T"
      using Ty by (simp add: field_simps)
    ultimately have ge: "?T \<le> binary64 y" by simp
    \<comment> \<open>the smaller argument rounds to at most that bound\<close>
    have d: "0 \<le> binade y - ?qx" using lt qy by simp
    have "?T / 2 powi ?qx = 2 powi (binade y - ?qx)" by (simp add: power_int_diff)
    also have "\<dots> = of_int (2 ^ nat (binade y - ?qx))"
      using d by (simp add: power_int_nonneg_exp)
    finally have Tx: "?T / 2 powi ?qx = of_int (2 ^ nat (binade y - ?qx))" .
    have "x < 2 powi (binade x + 1)" using binade_spec [OF assms(1)] by simp
    also have "\<dots> \<le> ?T" using bx by (intro power_int_increasing) auto
    finally have "x / 2 powi ?qx \<le> ?T / 2 powi ?qx" by (simp add: divide_right_mono)
    from round_half_even_mono [OF this]
    have "round_half_even (x / 2 powi ?qx) \<le> 2 ^ nat (binade y - ?qx)"
      by (simp only: Tx round_half_even_of_int)
    then have "of_int (round_half_even (x / 2 powi ?qx)) \<le> (of_int (2 ^ nat (binade y - ?qx)) :: real)"
      by (simp only: of_int_le_iff)
    then have "binary64 x \<le> of_int (2 ^ nat (binade y - ?qx)) * 2 powi ?qx"
      by (simp add: binary64_pos_eq [OF assms(1)] mult_right_mono)
    moreover have "of_int (2 ^ nat (binade y - ?qx)) * 2 powi ?qx = ?T"
      using Tx by (simp add: field_simps)
    ultimately have "binary64 x \<le> ?T" by simp
    with ge show ?thesis by simp
  qed
qed

lemma binary64_mono:
  assumes "0 \<le> x" "x \<le> y"
  shows "binary64 x \<le> binary64 y"
proof (cases "x = 0")
  case True
  with assms binary64_nonneg [of y] show ?thesis by (simp add: binary64_zero)
next
  case False
  with assms binary64_mono_pos show ?thesis by simp
qed

lemma binary64_values:
  "binary64 1 = 1"
  "binary64 (4 / 5) = 3602879701896397 / 4503599627370496"
  "binary64 (100 / 120) = 7505999378950827 / 9007199254740992"
  "binary64 (1 - 7505999378950827 / 9007199254740992) = 1501199875790165 / 9007199254740992"
  by code_simp+

lemma binary64_small_nat:
  assumes "k \<le> 8"
  shows "binary64 (real k) = real k"
proof -
  have v: "binary64 0 = 0" "binary64 1 = 1" "binary64 2 = 2" "binary64 3 = 3" "binary64 4 = 4"
    "binary64 5 = 5" "binary64 6 = 6" "binary64 7 = 7" "binary64 8 = 8"
    by code_simp+
  from assms have "k = 0 \<or> k = 1 \<or> k = 2 \<or> k = 3 \<or> k = 4 \<or> k = 5 \<or> k = 6 \<or> k = 7 \<or> k = 8"
    by arith
  then show ?thesis using v by auto
qed

lemma np_sum_invariant:
  assumes "\<forall>x\<in>set xs. 0 \<le> x \<and> x \<le> 1" "0 \<le> s" "s \<le> real k"
    "\<bar>s - a\<bar> \<le> real k * (9 / 2 ^ 53)" "k + length xs \<le> 8"
  shows "0 \<le> foldl (\<lambda>res x. binary64 (res + x)) s xs
       \<and> foldl (\<lambda>res x. binary64 (res + x)) s xs \<le> real (k + length xs)
       \<and> \<bar>foldl (\<lambda>res x. binary64 (res + x)) s xs - (a + sum_list xs)\<bar>
            \<le> real (k + length xs) * (9 / 2 ^ 53)"
  using assms
proof (induction xs arbitrary: s a k)
  case Nil
  then show ?case by simp
next
  case (Cons x xs)
  from Cons.prems have x: "0 \<le> x" "x \<le> 1" and k: "Suc k \<le> 8" by auto
  let ?s1 = "binary64 (s + x)"
  have z0: "0 \<le> s + x" using Cons.prems(2) x by simp
  have zk: "s + x \<le> real (Suc k)" using Cons.prems(3) x by simp
  have s1_nonneg: "0 \<le> ?s1" using z0 by (rule binary64_nonneg)
  have "?s1 \<le> binary64 (real (Suc k))" using z0 zk by (rule binary64_mono)
  then have s1_le: "?s1 \<le> real (Suc k)" by (simp only: binary64_small_nat [OF k])
  have "real (Suc k) \<le> 8" using k by simp
  with zk have z8: "s + x \<le> 8" by linarith
  have "\<bar>?s1 - (s + x)\<bar> \<le> (s + x) / 2 ^ 53 + 1 / 2 ^ 1075" using z0 by (rule binary64_error)
  also have "\<dots> \<le> 8 / 2 ^ 53 + 1 / 2 ^ 53"
    using z8 by (intro add_mono divide_right_mono) simp_all
  finally have r: "\<bar>?s1 - (s + x)\<bar> \<le> 9 / 2 ^ 53" by simp
  have "\<bar>?s1 - (a + x)\<bar> \<le> \<bar>?s1 - (s + x)\<bar> + \<bar>s - a\<bar>" by linarith
  also have "\<dots> \<le> 9 / 2 ^ 53 + real k * (9 / 2 ^ 53)" using r Cons.prems(4) by linarith
  also have "\<dots> = real (Suc k) * (9 / 2 ^ 53)" by (simp add: algebra_simps)
  finally have e1: "\<bar>?s1 - (a + x)\<bar> \<le> real (Suc k) * (9 / 2 ^ 53)" .
  have xs: "\<forall>x\<in>set xs. 0 \<le> x \<and> x \<le> 1" using Cons.prems(1) by simp
  have len: "Suc k + length xs \<le> 8" using Cons.prems(5) by simp
  from Cons.IH [OF xs s1_nonneg s1_le e1 len] show ?case
    by (simp add: add.assoc)
qed

lemma np_mean_binary64_near_mean:
  assumes "xs \<noteq> []" "length xs < 8" "\<forall>x\<in>set xs. 0 \<le> x \<and> x \<le> 1"
  shows "\<exists>m. np_mean_binary64 xs = Num m
           \<and> \<bar>m - equal_weight_mean xs\<bar> \<le> 1 / 2 ^ 49 \<and> 0 \<le> m \<and> m \<le> 1"
proof -
  let ?n = "real (length xs)"
  let ?S = "np_sum_binary64 xs"
  have n: "0 < ?n" using assms(1) by simp
  have "0 \<le> ?S \<and> ?S \<le> real (0 + length xs)
      \<and> \<bar>?S - (0 + sum_list xs)\<bar> \<le> real (0 + length xs) * (9 / 2 ^ 53)"
    unfolding np_sum_binary64_def
    by (rule np_sum_invariant [OF assms(3)]) (use assms(2) in simp_all)
  then have S0: "0 \<le> ?S" and Sn: "?S \<le> ?n" and Se: "\<bar>?S - sum_list xs\<bar> \<le> ?n * (9 / 2 ^ 53)"
    by simp_all
  let ?q = "?S / ?n"
  have q0: "0 \<le> ?q" using S0 n by simp
  have q1: "?q \<le> 1" using Sn n by simp
  have m0: "0 \<le> binary64 ?q" using q0 by (rule binary64_nonneg)
  have "binary64 ?q \<le> binary64 1" using q0 q1 by (rule binary64_mono)
  then have m1: "binary64 ?q \<le> 1" by (simp only: binary64_values)
  have "\<bar>binary64 ?q - ?q\<bar> \<le> ?q / 2 ^ 53 + 1 / 2 ^ 1075" using q0 by (rule binary64_error)
  also have "\<dots> \<le> 1 / 2 ^ 53 + 1 / 2 ^ 53"
    using q1 by (intro add_mono divide_right_mono) simp_all
  finally have r: "\<bar>binary64 ?q - ?q\<bar> \<le> 2 / 2 ^ 53" by simp
  have "\<bar>?q - sum_list xs / ?n\<bar> = \<bar>?S - sum_list xs\<bar> / ?n"
    using n by (simp add: diff_divide_distrib [symmetric])
  also have "\<dots> \<le> (?n * (9 / 2 ^ 53)) / ?n" using Se n by (intro divide_right_mono) simp_all
  also have "\<dots> = 9 / 2 ^ 53" using n by simp
  finally have d: "\<bar>?q - sum_list xs / ?n\<bar> \<le> 9 / 2 ^ 53" .
  have "\<bar>binary64 ?q - sum_list xs / ?n\<bar> \<le> \<bar>binary64 ?q - ?q\<bar> + \<bar>?q - sum_list xs / ?n\<bar>"
    by linarith
  also have "\<dots> \<le> 2 / 2 ^ 53 + 9 / 2 ^ 53" using r d by linarith
  also have "\<dots> \<le> 1 / 2 ^ 49" by simp
  finally have "\<bar>binary64 ?q - equal_weight_mean xs\<bar> \<le> 1 / 2 ^ 49"
    by (simp only: equal_weight_mean_eq)
  with m0 m1 show ?thesis using assms(1) by (simp add: np_mean_binary64_def)
qed

lemma example_mean_binary64:
  "np_mean_binary64 [binary64 (1 / 5), binary64 (2 / 5), binary64 (3 / 5)]
     = Num (7205759403792795 / 18014398509481984)"
  "np_mean_binary64 [binary64 (1 / 4), binary64 (1 / 2), binary64 (3 / 4)] = Num (1 / 2)"
  by code_simp+

lemma binary64_two_fifths: "binary64 (2 / 5) = 7205759403792794 / 18014398509481984"
  by code_simp

lemma normalize_scores_binary64_five:
  "normalize_scores_binary64
     [(''flesch_kincaid'', a), (''coleman_liau'', b), (''gunning_fog'', c),
      (''smog'', d), (''flesch_reading_ease'', e)] =
     [(''flesch_kincaid'', binary64 (a / 25)), (''coleman_liau'', binary64 (b / 25)),
      (''gunning_fog'', binary64 (c / 25)), (''smog'', binary64 (d / 25)),
      (''flesch_reading_ease'', binary64 (1 - binary64 (e / 120)))]"
  by (simp add: normalize_scores_binary64_def)

lemma readability_score_binary64_success:
  assumes "flesch_kincaid_grade ts t = Inr fk" "coleman_liau_index ts t = Inr cl"
    "gunning_fog ts t = Inr gf" "smog_index ts t = Inr sm" "flesch_reading_ease ts t = Inr fre"
  shows "readability_score_binary64 ts t =
     [(''flesch_kincaid'', binary64 (max 0 (min 20 fk) / 25)),
      (''coleman_liau'', binary64 (max 0 (min 20 cl) / 25)),
      (''gunning_fog'', binary64 (max 0 (min 20 gf) / 25)),
      (''smog'', binary64 (max 0 (min 20 sm) / 25)),
      (''flesch_reading_ease'', binary64 (1 - binary64 (max 0 (min 100 fre) / 120)))]"
  using assms
  by (simp add: readability_score_binary64_def readability_try_binary64_def
      normalize_scores_binary64_five)

lemma grade_level_binary64_bounds:
  "0 \<le> binary64 (max 0 (min 20 x) / 25)
   \<and> binary64 (max 0 (min 20 x) / 25) \<le> 3602879701896397 / 4503599627370496"
proof -
  let ?c = "max 0 (min 20 x) / 25"
  have c0: "0 \<le> ?c" by simp
  have c1: "?c \<le> 4 / 5" by (simp add: max_def min_def)
  have "binary64 ?c \<le> binary64 (4 / 5)" using c0 c1 by (rule binary64_mono)
  then have "binary64 ?c \<le> 3602879701896397 / 4503599627370496"
    by (simp only: binary64_values)
  with binary64_nonneg [OF c0] show ?thesis by simp
qed

lemma reading_ease_binary64_bounds:
  "1501199875790165 / 9007199254740992 \<le> binary64 (1 - binary64 (max 0 (min 100 x) / 120))
   \<and> binary64 (1 - binary64 (max 0 (min 100 x) / 120)) \<le> 1
   \<and> (100 \<le> x \<longrightarrow> binary64 (1 - binary64 (max 0 (min 100 x) / 120))
         = 1501199875790165 / 9007199254740992)"
proof -
  let ?c = "max 0 (min 100 x) / 120"
  let ?H = "7505999378950827 / 9007199254740992 :: real"
  have c0: "0 \<le> ?c" by simp
  have c1: "?c \<le> 100 / 120" by (simp add: max_def min_def)
  have t0: "0 \<le> binary64 ?c" using c0 by (rule binary64_nonneg)
  have "binary64 ?c \<le> binary64 (100 / 120)" using c0 c1 by (rule binary64_mono)
  then have tH: "binary64 ?c \<le> ?H" by (simp only: binary64_values)
  have w0: "0 \<le> 1 - ?H" by simp
  have w1: "1 - ?H \<le> 1 - binary64 ?c" using tH by simp
  have "binary64 (1 - ?H) \<le> binary64 (1 - binary64 ?c)" using w0 w1 by (rule binary64_mono)
  then have lo: "1501199875790165 / 9007199254740992 \<le> binary64 (1 - binary64 ?c)"
    by (simp only: binary64_values)
  have w2: "0 \<le> 1 - binary64 ?c" using w0 w1 by linarith
  have w3: "1 - binary64 ?c \<le> 1" using t0 by simp
  have "binary64 (1 - binary64 ?c) \<le> binary64 1" using w2 w3 by (rule binary64_mono)
  then have hi: "binary64 (1 - binary64 ?c) \<le> 1" by (simp only: binary64_values)
  have "binary64 (1 - binary64 ?c) = 1501199875790165 / 9007199254740992" if "100 \<le> x"
  proof -
    from that have "?c = 100 / 120" by (simp add: max_def min_def)
    then show ?thesis by (simp only: binary64_values)
  qed
  with lo hi show ?thesis by blast
qed

lemma example_readability_binary64:
  "readability_score_binary64 example_textstat ''The cat sat.'' =
     [(''flesch_kincaid'', 0),
      (''coleman_liau'', 3602879701896397 / 18014398509481984),
      (''gunning_fog'', 3602879701896397 / 9007199254740992),
      (''smog'', 3602879701896397 / 4503599627370496),
      (''flesch_reading_ease'', 1501199875790165 / 9007199254740992)]"
proof -
  have v: "binary64 (0 / 25) = 0" "binary64 (5 / 25) = 3602879701896397 / 18014398509481984"
    "binary64 (10 / 25) = 3602879701896397 / 9007199254740992"
    "binary64 (20 / 25) = 3602879701896397 / 4503599627370496"
    "binary64 (1 - binary64 (100 / 120)) = 1501199875790165 / 9007199254740992"
    by code_simp+
  have h: "flesch_kincaid_grade example_textstat ''The cat sat.'' = Inr (- 2)"
    "coleman_liau_index example_textstat ''The cat sat.'' = Inr 5"
    "gunning_fog example_textstat ''The cat sat.'' = Inr 10"
    "smog_index example_textstat ''The cat sat.'' = Inr 30"
    "flesch_reading_ease example_textstat ''The cat sat.'' = Inr 110"
    by (simp_all add: example_textstat_def)
  have c: "max 0 (min 20 (- 2 :: real)) = 0" "max 0 (min 20 (5 :: real)) = 5"
    "max 0 (min 20 (10 :: real)) = 10" "max 0 (min 20 (30 :: real)) = 20"
    "max 0 (min 100 (110 :: real)) = 100"
    by simp_all
  show ?thesis
    unfolding readability_score_binary64_success [OF h] c v ..
qed

lemma example_category_average_binary64:
  "category_average_binary64
     [(''a'', binary64 (1 / 5)), (''b'', binary64 (2 / 5)), (''c'', binary64 (3 / 5))]
     = Num (7205759403792795 / 18014398509481984)"
  "category_average_binary64
     [(''a'', binary64 (1 / 4)), (''b'', binary64 (1 / 2)), (''c'', binary64 (3 / 4))]
     = Num (1 / 2)"
  by (simp_all only: category_average_binary64_def dict_values_def list.map snd_conv
      example_mean_binary64)

subsection \<open>Complexity classifier\<close>

text \<open>
  C2. For ascending thresholds, \<open>get_complexity_level\<close> returns \<open>low\<close> exactly below the
  low threshold, \<open>medium\<close> exactly on [low, medium), \<open>high\<close> exactly on [medium, high) and
  \<open>very_high\<close> exactly from the high threshold on; with the default thresholds
  (0.25, 0.45, 0.65) the scores 0.0, 0.25, 0.449, 0.45 and 1.0 are classified as low,
  medium, medium, high and very_high. The function is a plain value for every real score.
\<close>

theorem get_complexity_level_bands:
  assumes "LOW_COMPLEXITY_THRESHOLD c \<le> MEDIUM_COMPLEXITY_THRESHOLD c"
    and "MEDIUM_COMPLEXITY_THRESHOLD c \<le> HIGH_COMPLEXITY_THRESHOLD c"
  shows "(get_complexity_level c s = ''low'' \<longleftrightarrow> s < LOW_COMPLEXITY_THRESHOLD c)
    \<and> (get_complexity_level c s = ''medium'' \<longleftrightarrow>
          LOW_COMPLEXITY_THRESHOLD c \<le> s \<and> s < MEDIUM_COMPLEXITY_THRESHOLD c)
    \<and> (get_complexity_level c s = ''high'' \<longleftrightarrow>
          MEDIUM_COMPLEXITY_THRESHOLD c \<le> s \<and> s < HIGH_COMPLEXITY_THRESHOLD c)
    \<and> (get_complexity_level c s = ''very_high'' \<longleftrightarrow> HIGH_COMPLEXITY_THRESHOLD c \<le> s)
    \<and> get_complexity_level c s \<in> {''low'', ''medium'', ''high'', ''very_high''}
    \<and> get_complexity_level Config_default 0 = ''low''
    \<and> get_complexity_level Config_default (25 / 100) = ''medium''
    \<and> get_complexity_level Config_default (449 / 1000) = ''medium''
    \<and> get_complexity_level Config_default (45 / 100) = ''high''
    \<and> get_complexity_level Config_default 1 = ''very_high''"
  using assms by (auto simp: get_complexity_level_def Config_default_def)

theorem get_complexity_level_bands_witness:
  "LOW_COMPLEXITY_THRESHOLD Config_default \<le> MEDIUM_COMPLEXITY_THRESHOLD Config_default
   \<and> MEDIUM_COMPLEXITY_THRESHOLD Config_default \<le> HIGH_COMPLEXITY_THRESHOLD Config_default
   \<and> get_complexity_level Config_default (1 / 2) = ''high''
   \<and> get_complexity_level Config_default (7 / 10) = ''very_high''
   \<and> get_complexity_level Config_default (3 / 10) = ''medium''
   \<and> get_complexity_level Config_default (1 / 10) = ''low''"
  using get_complexity_level_bands [of Config_default "1 / 2"]
    get_complexity_level_bands [of Config_default "7 / 10"]
    get_complexity_level_bands [of Config_default "3 / 10"]
    get_complexity_level_bands [of Config_default "1 / 10"]
  by (simp add: Config_default_def)

subsection \<open>Overall aggregator\<close>

text \<open>
  C1. Every number that \<open>_calculate_overall_score\<close> returns lies in [0, 1]; it returns
  such a number whenever the three category sets are not empty (so that the category
  averages are numbers) and the weights do not sum to zero; and in every bundle that
  \<open>score_text\<close> returns, the key \<open>overall_complexity\<close> holds a number in [0, 1].
\<close>

theorem overall_complexity_in_unit_interval:
  "(\<forall>v. calculate_overall_score c rs ls ts = Returns (Num v) \<longrightarrow> 0 \<le> v \<and> v \<le> 1)
   \<and> (rs \<noteq> [] \<and> ls \<noteq> [] \<and> ts \<noteq> []
        \<and> READABILITY_WEIGHT c + LINGUISTIC_WEIGHT c + TRANSLATION_WEIGHT c \<noteq> 0
      \<longrightarrow> (\<exists>v. calculate_overall_score c rs ls ts = Returns (Num v) \<and> 0 \<le> v \<and> v \<le> 1))
   \<and> (\<forall>scores. score_text self text = Returns scores
      \<longrightarrow> (\<exists>v. map_of scores ''overall_complexity'' = Some (Num v) \<and> 0 \<le> v \<and> v \<le> 1))"
proof (intro conjI allI impI)
  fix v assume "calculate_overall_score c rs ls ts = Returns (Num v)"
  then show "0 \<le> v" "v \<le> 1" using overall_returns_bounded by blast+
next
  assume a: "rs \<noteq> [] \<and> ls \<noteq> [] \<and> ts \<noteq> []
        \<and> READABILITY_WEIGHT c + LINGUISTIC_WEIGHT c + TRANSLATION_WEIGHT c \<noteq> 0"
  then obtain v where v: "calculate_overall_score c rs ls ts = Returns (Num v)"
    using overall_nonempty [of rs ls ts c] by blast
  with overall_returns_bounded show
    "\<exists>v. calculate_overall_score c rs ls ts = Returns (Num v) \<and> 0 \<le> v \<and> v \<le> 1"
    by blast
next
  fix scores assume "score_text self text = Returns scores"
  then show "\<exists>v. map_of scores ''overall_complexity'' = Some (Num v) \<and> 0 \<le> v \<and> v \<le> 1"
    by (rule score_text_overall)
qed

theorem overall_complexity_in_unit_interval_witness:
  "[(''a'', 3 :: real)] \<noteq> [] \<and> [(''b'', 2 :: real)] \<noteq> [] \<and> [(''c'', 5 :: real)] \<noteq> []
   \<and> READABILITY_WEIGHT Config_default + LINGUISTIC_WEIGHT Config_default
       + TRANSLATION_WEIGHT Config_default \<noteq> 0
   \<and> (\<exists>v. calculate_overall_score Config_default [(''a'', 3)] [(''b'', 2)] [(''c'', 5)]
            = Returns (Num v) \<and> 0 \<le> v \<and> v \<le> 1)
   \<and> (\<exists>scores v. score_text example_scorer ''The cat sat.'' = Returns scores
          \<and> map_of scores ''overall_complexity'' = Some (Num v) \<and> 0 \<le> v \<and> v \<le> 1)
   \<and> calculate_overall_score Config_default [(''a'', 3)] [(''b'', 2)] [(''c'', 5)] = Returns (Num 1)
   \<and> calculate_overall_score Config_default [(''a'', - 3)] [(''b'', - 2)] [(''c'', 0)]
        = Returns (Num 0)"
proof -
  have w: "READABILITY_WEIGHT Config_default + LINGUISTIC_WEIGHT Config_default
       + TRANSLATION_WEIGHT Config_default \<noteq> 0"
    by (simp add: Config_default_def)
  note t = overall_complexity_in_unit_interval
    [of Config_default "[(''a'', 3)]" "[(''b'', 2)]" "[(''c'', 5)]" example_scorer "''The cat sat.''"]
  from t w have "\<exists>v. calculate_overall_score Config_default [(''a'', 3)] [(''b'', 2)] [(''c'', 5)]
            = Returns (Num v) \<and> 0 \<le> v \<and> v \<le> 1"
    by simp
  moreover from t example_score_text
  have "\<exists>scores v. score_text example_scorer ''The cat sat.'' = Returns scores
          \<and> map_of scores ''overall_complexity'' = Some (Num v) \<and> 0 \<le> v \<and> v \<le> 1"
    by blast
  moreover have
    "calculate_overall_score Config_default [(''a'', 3)] [(''b'', 2)] [(''c'', 5)] = Returns (Num 1)"
    "calculate_overall_score Config_default [(''a'', - 3)] [(''b'', - 2)] [(''c'', 0)]
        = Returns (Num 0)"
    by (simp_all add: overall_nonempty dict_values_def Config_default_def)
  ultimately show ?thesis using w by simp
qed

subsection \<open>Category aggregator\<close>

text \<open>
  C3, as the code behaves. For a non-empty metric set with values in [0, 1] and fewer than
  eight metrics (each category has three to five), the category score is \<open>np.mean\<close> of
  the values in double precision, every value counting alike: it lies in [0, 1] and differs
  from the exact arithmetic mean by at most \<open>2 ^ -49\<close>. The set {a: 0.25, b: 0.5, c: 0.75}
  gives exactly 0.5; the set {a: 0.2, b: 0.4, c: 0.6} gives 0.4000000000000001, the double
  next above 0.4.
\<close>

theorem category_average_binary64_near_mean:
  assumes "d \<noteq> []" "length d < 8" "\<forall>v\<in>set (dict_values d). 0 \<le> v \<and> v \<le> 1"
  shows "(\<exists>m. category_average_binary64 d = Num m
             \<and> \<bar>m - equal_weight_mean (dict_values d)\<bar> \<le> 1 / 2 ^ 49 \<and> 0 \<le> m \<and> m \<le> 1)
    \<and> category_average_binary64
         [(''a'', binary64 (1 / 5)), (''b'', binary64 (2 / 5)), (''c'', binary64 (3 / 5))]
        = Num (7205759403792795 / 18014398509481984)
    \<and> category_average_binary64
         [(''a'', binary64 (1 / 4)), (''b'', binary64 (1 / 2)), (''c'', binary64 (3 / 4))]
        = Num (1 / 2)"
proof -
  have "dict_values d \<noteq> []" "length (dict_values d) < 8"
    using assms(1,2) by (simp_all add: dict_values_def)
  from np_mean_binary64_near_mean [OF this assms(3)]
  have "\<exists>m. category_average_binary64 d = Num m
             \<and> \<bar>m - equal_weight_mean (dict_values d)\<bar> \<le> 1 / 2 ^ 49 \<and> 0 \<le> m \<and> m \<le> 1"
    by (simp only: category_average_binary64_def)
  with example_category_average_binary64 show ?thesis by blast
qed

theorem category_average_binary64_near_mean_witness:
  "[(''a'', binary64 (1 / 5)), (''b'', binary64 (2 / 5)), (''c'', binary64 (3 / 5))] \<noteq> []
   \<and> length [(''a'', binary64 (1 / 5)), (''b'', binary64 (2 / 5)), (''c'', binary64 (3 / 5))] < 8
   \<and> 0 \<le> binary64 (1 / 5) \<and> binary64 (1 / 5) \<le> 1
   \<and> 0 \<le> binary64 (2 / 5) \<and> binary64 (2 / 5) \<le> 1
   \<and> 0 \<le> binary64 (3 / 5) \<and> binary64 (3 / 5) \<le> 1
   \<and> (\<exists>m. category_average_binary64
          [(''a'', binary64 (1 / 5)), (''b'', binary64 (2 / 5)), (''c'', binary64 (3 / 5))] = Num m
        \<and> \<bar>m - equal_weight_mean [binary64 (1 / 5), binary64 (2 / 5), binary64 (3 / 5)]\<bar>
             \<le> 1 / 2 ^ 49
        \<and> 0 \<le> m \<and> m \<le> 1)"
proof -
  let ?d = "[(''a'', binary64 (1 / 5)), (''b'', binary64 (2 / 5)), (''c'', binary64 (3 / 5))]"
  have v: "binary64 (1 / 5) = 3602879701896397 / 18014398509481984"
    "binary64 (2 / 5) = 3602879701896397 / 9007199254740992"
    "binary64 (3 / 5) = 5404319552844595 / 9007199254740992"
    by code_simp+
  have b: "0 \<le> binary64 (1 / 5) \<and> binary64 (1 / 5) \<le> 1"
    "0 \<le> binary64 (2 / 5) \<and> binary64 (2 / 5) \<le> 1"
    "0 \<le> binary64 (3 / 5) \<and> binary64 (3 / 5) \<le> 1"
    unfolding v by simp_all
  have dv: "dict_values ?d = [binary64 (1 / 5), binary64 (2 / 5), binary64 (3 / 5)]"
    by (simp only: dict_values_def list.map snd_conv)
  have h: "\<forall>v\<in>set (dict_values ?d). 0 \<le> v \<and> v \<le> 1"
    unfolding dv using b by simp
  have ne: "?d \<noteq> []" by (rule list.distinct(2))
  have len: "length ?d < 8" by simp
  from category_average_binary64_near_mean [OF ne len h]
  have "\<exists>m. category_average_binary64 ?d = Num m
        \<and> \<bar>m - equal_weight_mean (dict_values ?d)\<bar> \<le> 1 / 2 ^ 49 \<and> 0 \<le> m \<and> m \<le> 1"
    by (rule conjunct1)
  then have "\<exists>m. category_average_binary64 ?d = Num m
        \<and> \<bar>m - equal_weight_mean [binary64 (1 / 5), binary64 (2 / 5), binary64 (3 / 5)]\<bar>
             \<le> 1 / 2 ^ 49 \<and> 0 \<le> m \<and> m \<le> 1"
    by (simp only: dv)
  with ne len b show ?thesis by blast
qed

text \<open>
  The claim as stated fails: for {a: 0.2, b: 0.4, c: 0.6} the category score is neither the
  double 0.4 nor the real number 2/5.
\<close>

theorem category_average_not_exact_counterexample:
  "category_average_binary64
     [(''a'', binary64 (1 / 5)), (''b'', binary64 (2 / 5)), (''c'', binary64 (3 / 5))]
     = Num (7205759403792795 / 18014398509481984)
   \<and> binary64 (2 / 5) = 7205759403792794 / 18014398509481984
   \<and> category_average_binary64
     [(''a'', binary64 (1 / 5)), (''b'', binary64 (2 / 5)), (''c'', binary64 (3 / 5))]
     \<noteq> Num (binary64 (2 / 5))
   \<and> category_average_binary64
     [(''a'', binary64 (1 / 5)), (''b'', binary64 (2 / 5)), (''c'', binary64 (3 / 5))]
     \<noteq> Num (2 / 5)"
proof -
  let ?avg = "category_average_binary64
     [(''a'', binary64 (1 / 5)), (''b'', binary64 (2 / 5)), (''c'', binary64 (3 / 5))]"
  note a = example_category_average_binary64(1)
  note b = binary64_two_fifths
  have n1: "Num (7205759403792795 / 18014398509481984) \<noteq> Num (7205759403792794 / 18014398509481984)"
    by simp
  have n2: "Num (7205759403792795 / 18014398509481984) \<noteq> Num (2 / 5)"
    by simp
  have c: "?avg \<noteq> Num (binary64 (2 / 5))" by (subst a, subst b, rule n1)
  have d: "?avg \<noteq> Num (2 / 5)" by (subst a, rule n2)
  show ?thesis by (intro conjI a b c d)
qed

subsection \<open>Configuration with zero weights\<close>

text \<open>
  C7, as the code behaves. Constructing a configuration whose three weights are zero
  succeeds; the failure comes at scoring time: with such a configuration
  \<open>_calculate_overall_score\<close> raises \<open>ZeroDivisionError\<close> for all category sets, and
  \<open>score_text\<close> returns no bundle for any scorer and text.
\<close>

theorem zero_weights_fail_at_scoring:
  "\<exists>cfg. Config_init 0 0 0 em sm lo me hi = Returns cfg
     \<and> (\<forall>rs ls ts. calculate_overall_score cfg rs ls ts = Raises ZeroDivisionError)
     \<and> (\<forall>self t scores. score_text (self\<lparr>config := cfg\<rparr>) t \<noteq> Returns scores)"
  by (auto simp: Config_init_def calculate_overall_score_unfold np_average_def Let_def then_do_simps
      score_text_def then_do_def split: outcome.splits)

text \<open>
  The claim as stated fails: the constructor returns the zero-weight configuration, and
  scoring a text with it raises \<open>ZeroDivisionError\<close>.
\<close>

theorem zero_weights_counterexample:
  "Config_init 0 0 0 ''sentence-transformers/all-MiniLM-L6-v2'' ''en_core_web_sm''
      (25 / 100) (45 / 100) (65 / 100) = Returns zero_weight_Config
   \<and> score_text (scorer_init (Some zero_weight_Config) example_textstat example_nlp (\<lambda>text. Inr 5))
        ''The cat sat.'' = Raises ZeroDivisionError"
  by (simp add: Config_init_def zero_weight_Config_def Config_default_def
      score_text_def scorer_init_def example_readability
      example_linguistic example_translation then_do_simps
      calculate_overall_score_unfold np_average_def Let_def)

subsection \<open>Readability normalizer\<close>

text \<open>
  C4. When the five textstat calls return, the provider maps each of the four grade-level
  metrics to its (clamped) raw score divided by 25 and the reading-ease metric to one minus
  its raw score over 120; the normalisation loop itself applies exactly these two rules to
  whatever scores it is given and clamps nothing, so a grade-level raw score above 25 gets
  a normalised value above 1.
\<close>

theorem readability_normalizer_unclamped:
  "(flesch_kincaid_grade ts t = Inr fk \<and> coleman_liau_index ts t = Inr cl
      \<and> gunning_fog ts t = Inr gf \<and> smog_index ts t = Inr sm
      \<and> flesch_reading_ease ts t = Inr fre
    \<longrightarrow> readability_score ts t =
        [(''flesch_kincaid'', max 0 (min 20 fk) / 25),
         (''coleman_liau'', max 0 (min 20 cl) / 25),
         (''gunning_fog'', max 0 (min 20 gf) / 25),
         (''smog'', max 0 (min 20 sm) / 25),
         (''flesch_reading_ease'', 1 - max 0 (min 100 fre) / 120)])
   \<and> (distinct (map fst scores)
    \<longrightarrow> normalize_scores scores =
        map (\<lambda>(metric, score).
               (metric, if metric = ''flesch_reading_ease'' then 1 - score / 120 else score / 25))
            scores)
   \<and> (metric \<noteq> ''flesch_reading_ease'' \<and> 25 < raw
    \<longrightarrow> normalize_scores [(metric, raw)] = [(metric, raw / 25)] \<and> 1 < raw / 25)"
proof (intro conjI impI)
  assume "flesch_kincaid_grade ts t = Inr fk \<and> coleman_liau_index ts t = Inr cl
      \<and> gunning_fog ts t = Inr gf \<and> smog_index ts t = Inr sm
      \<and> flesch_reading_ease ts t = Inr fre"
  then show "readability_score ts t =
        [(''flesch_kincaid'', max 0 (min 20 fk) / 25),
         (''coleman_liau'', max 0 (min 20 cl) / 25),
         (''gunning_fog'', max 0 (min 20 gf) / 25),
         (''smog'', max 0 (min 20 sm) / 25),
         (''flesch_reading_ease'', 1 - max 0 (min 100 fre) / 120)]"
    using readability_score_success by blast
next
  assume "distinct (map fst scores)"
  then show "normalize_scores scores =
        map (\<lambda>(metric, score).
               (metric, if metric = ''flesch_reading_ease'' then 1 - score / 120 else score / 25))
            scores"
    by (rule normalize_scores_distinct)
next
  assume a: "metric \<noteq> ''flesch_reading_ease'' \<and> 25 < raw"
  then show "normalize_scores [(metric, raw)] = [(metric, raw / 25)]"
    by (simp add: normalize_scores_def)
  from a show "1 < raw / 25" by simp
qed

theorem readability_normalizer_unclamped_witness:
  "flesch_kincaid_grade example_textstat ''The cat sat.'' = Inr (- 2)
   \<and> coleman_liau_index example_textstat ''The cat sat.'' = Inr 5
   \<and> gunning_fog example_textstat ''The cat sat.'' = Inr 10
   \<and> smog_index example_textstat ''The cat sat.'' = Inr 30
   \<and> flesch_reading_ease example_textstat ''The cat sat.'' = Inr 110
   \<and> readability_score example_textstat ''The cat sat.'' =
        [(''flesch_kincaid'', 0), (''coleman_liau'', 1 / 5), (''gunning_fog'', 2 / 5),
         (''smog'', 4 / 5), (''flesch_reading_ease'', 1 / 6)]
   \<and> distinct (map fst [(''smog'', 30 :: real), (''flesch_reading_ease'', 60)])
   \<and> normalize_scores [(''smog'', 30), (''flesch_reading_ease'', 60)] =
        [(''smog'', 6 / 5), (''flesch_reading_ease'', 1 / 2)]
   \<and> ''smog'' \<noteq> ''flesch_reading_ease'' \<and> (25 :: real) < 30
   \<and> normalize_scores [(''smog'', 30)] = [(''smog'', 6 / 5)] \<and> (1 :: real) < 30 / 25"
  using readability_normalizer_unclamped
    [of example_textstat "''The cat sat.''" "- 2" 5 10 30 110
        "[(''smog'', 30), (''flesch_reading_ease'', 60)]" "''smog''" 30]
  by (simp add: example_textstat_def)

subsection \<open>Readability provider failure\<close>

text \<open>
  C9. When the readability computation raises (any one of the five textstat calls), the
  provider returns the all-zero mapping over the five metric names; the provider always
  returns a mapping of five entries, so no exception reaches its caller.
\<close>

theorem readability_default_on_exception:
  "(readability_try ts t = Inl e \<longrightarrow> readability_score ts t = readability_default)
   \<and> (flesch_kincaid_grade ts t = Inl e \<or> coleman_liau_index ts t = Inl e
        \<or> gunning_fog ts t = Inl e \<or> smog_index ts t = Inl e
        \<or> flesch_reading_ease ts t = Inl e
      \<longrightarrow> readability_score ts t = readability_default)
   \<and> readability_default =
        [(''flesch_kincaid'', 0), (''coleman_liau'', 0), (''gunning_fog'', 0), (''smog'', 0),
         (''flesch_reading_ease'', 0)]
   \<and> length (readability_score ts t) = 5"
  by (auto simp: readability_score_def readability_try_def readability_default_def
      normalize_scores_five split: sum.splits)

theorem readability_default_on_exception_witness:
  "smog_index (example_textstat\<lparr>smog_index := \<lambda>text. Inl (Exception ''no sentences'')\<rparr>) ''???''
     = Inl (Exception ''no sentences'')
   \<and> readability_try (example_textstat\<lparr>smog_index := \<lambda>text. Inl (Exception ''no sentences'')\<rparr>) ''???''
     = Inl (Exception ''no sentences'')
   \<and> readability_score (example_textstat\<lparr>smog_index := \<lambda>text. Inl (Exception ''no sentences'')\<rparr>) ''???''
     = [(''flesch_kincaid'', 0), (''coleman_liau'', 0), (''gunning_fog'', 0), (''smog'', 0),
        (''flesch_reading_ease'', 0)]"
  using readability_default_on_exception
    [of "example_textstat\<lparr>smog_index := \<lambda>text. Inl (Exception ''no sentences'')\<rparr>" "''???''"
        "Exception ''no sentences''"]
  by (simp add: example_textstat_def readability_try_def)

subsection \<open>Readability values on the success path\<close>

text \<open>
  C10, as the code behaves. When the five textstat calls return, every normalised
  readability value lies in [0, 1]: each grade-level value between 0 and \<open>20 / 25.0\<close>, the
  double 0.8, and the reading-ease value between \<open>1.0 - 100 / 120.0\<close>, the double
  0.16666666666666663, and 1, so it is never 0. The lower end is taken for every raw
  reading ease of 100 or more.
\<close>

theorem readability_binary64_in_unit_interval:
  assumes "flesch_kincaid_grade ts t = Inr fk" "coleman_liau_index ts t = Inr cl"
    "gunning_fog ts t = Inr gf" "smog_index ts t = Inr sm" "flesch_reading_ease ts t = Inr fre"
  shows "\<exists>a b c d e. readability_score_binary64 ts t =
           [(''flesch_kincaid'', a), (''coleman_liau'', b), (''gunning_fog'', c), (''smog'', d),
            (''flesch_reading_ease'', e)]
         \<and> 0 \<le> a \<and> a \<le> 3602879701896397 / 4503599627370496
         \<and> 0 \<le> b \<and> b \<le> 3602879701896397 / 4503599627370496
         \<and> 0 \<le> c \<and> c \<le> 3602879701896397 / 4503599627370496
         \<and> 0 \<le> d \<and> d \<le> 3602879701896397 / 4503599627370496
         \<and> 1501199875790165 / 9007199254740992 \<le> e \<and> e \<le> 1 \<and> e \<noteq> 0
         \<and> (100 \<le> fre \<longrightarrow> e = 1501199875790165 / 9007199254740992)
         \<and> a \<le> 1 \<and> b \<le> 1 \<and> c \<le> 1 \<and> d \<le> 1"
proof -
  note g = grade_level_binary64_bounds
  note r = reading_ease_binary64_bounds [of fre]
  have g1: "binary64 (max 0 (min 20 x) / 25) \<le> 1" for x
    using g [of x] by linarith
  have r0: "binary64 (1 - binary64 (max 0 (min 100 fre) / 120)) \<noteq> 0"
    using r by linarith
  show ?thesis
    unfolding readability_score_binary64_success [OF assms]
    using g [of fk] g [of cl] g [of gf] g [of sm] r r0 g1 [of fk] g1 [of cl] g1 [of gf] g1 [of sm]
    by blast
qed

theorem readability_binary64_in_unit_interval_witness:
  "flesch_kincaid_grade example_textstat ''The cat sat.'' = Inr (- 2)
   \<and> coleman_liau_index example_textstat ''The cat sat.'' = Inr 5
   \<and> gunning_fog example_textstat ''The cat sat.'' = Inr 10
   \<and> smog_index example_textstat ''The cat sat.'' = Inr 30
   \<and> flesch_reading_ease example_textstat ''The cat sat.'' = Inr 110
   \<and> (\<exists>a b c d e. readability_score_binary64 example_textstat ''The cat sat.'' =
           [(''flesch_kincaid'', a), (''coleman_liau'', b), (''gunning_fog'', c), (''smog'', d),
            (''flesch_reading_ease'', e)]
         \<and> 0 \<le> a \<and> a \<le> 3602879701896397 / 4503599627370496
         \<and> 0 \<le> b \<and> b \<le> 3602879701896397 / 4503599627370496
         \<and> 0 \<le> c \<and> c \<le> 3602879701896397 / 4503599627370496
         \<and> 0 \<le> d \<and> d \<le> 3602879701896397 / 4503599627370496
         \<and> 1501199875790165 / 9007199254740992 \<le> e \<and> e \<le> 1 \<and> e \<noteq> 0
         \<and> (100 \<le> (110 :: real) \<longrightarrow> e = 1501199875790165 / 9007199254740992)
         \<and> a \<le> 1 \<and> b \<le> 1 \<and> c \<le> 1 \<and> d \<le> 1)"
proof -
  have h: "flesch_kincaid_grade example_textstat ''The cat sat.'' = Inr (- 2)"
    "coleman_liau_index example_textstat ''The cat sat.'' = Inr 5"
    "gunning_fog example_textstat ''The cat sat.'' = Inr 10"
    "smog_index example_textstat ''The cat sat.'' = Inr 30"
    "flesch_reading_ease example_textstat ''The cat sat.'' = Inr 110"
    by (simp_all add: example_textstat_def)
  note t = readability_binary64_in_unit_interval [OF h]
  show ?thesis by (intro conjI h t)
qed

text \<open>
  The claim as stated fails: for a raw reading ease of 110 the normalised value is below
  1/6, as a real number and compared with the double nearest to 1/6.
\<close>

theorem reading_ease_below_one_sixth_counterexample:
  "readability_score_binary64 example_textstat ''The cat sat.'' =
     [(''flesch_kincaid'', 0),
      (''coleman_liau'', 3602879701896397 / 18014398509481984),
      (''gunning_fog'', 3602879701896397 / 9007199254740992),
      (''smog'', 3602879701896397 / 4503599627370496),
      (''flesch_reading_ease'', 1501199875790165 / 9007199254740992)]
   \<and> (1501199875790165 / 9007199254740992 :: real) < 1 / 6
   \<and> (1501199875790165 / 9007199254740992 :: real) < binary64 (1 / 6)"
proof -
  have "binary64 (1 / 6) = 6004799503160661 / 36028797018963968" by code_simp
  then show ?thesis by (simp add: example_readability_binary64)
qed

subsection \<open>Linguistic and semantic normalizer\<close>

text \<open>
  C5. Whenever the raw values exist, the linguistic provider maps the raw average sentence
  length to min(raw/30, 1), the raw lexical diversity to raw * 0.6, the raw syntactic
  complexity to min(raw/10, 1) and the raw vocabulary rarity to raw * 0.5, the last two
  products unclamped; the translation provider maps the embedding norm to min(raw/10, 1)
  and passes the idiomatic density and the domain specificity through unchanged, and these
  two lie in [0, 1] for every text.
\<close>

theorem linguistic_and_semantic_normalizer:
  "(nlp_of t = Inr doc \<and> calculate_avg_sentence_length doc = Returns a
      \<and> calculate_syntactic_complexity doc = Returns s
    \<longrightarrow> linguistic_score nlp_of t =
        Returns [(''avg_sentence_length'', min (a / 30) 1),
                 (''lexical_diversity'', calculate_lexical_diversity doc * (6 / 10)),
                 (''syntactic_complexity'', min (s / 10) 1),
                 (''vocabulary_rarity'', calculate_vocabulary_rarity doc * (5 / 10))])
   \<and> (norm_of t = Inr x
    \<longrightarrow> translation_score norm_of t =
        Returns [(''semantic_complexity'', min (x / 10) 1),
                 (''idiomatic_density'', calculate_idiomatic_density t),
                 (''domain_specificity'', calculate_domain_specificity t)])
   \<and> 0 \<le> calculate_idiomatic_density t \<and> calculate_idiomatic_density t \<le> 1
   \<and> 0 \<le> calculate_domain_specificity t \<and> calculate_domain_specificity t \<le> 1"
  using linguistic_score_success [of nlp_of t doc a s] translation_score_success [of norm_of t x]
    idiomatic_density_unit [of t] domain_specificity_unit [of t]
  by blast

theorem linguistic_and_semantic_normalizer_witness:
  "example_nlp ''Kick the bucket now it rains'' = Inr example_Doc
   \<and> calculate_avg_sentence_length example_Doc = Returns 4
   \<and> calculate_syntactic_complexity example_Doc = Returns 2
   \<and> linguistic_score example_nlp ''Kick the bucket now it rains'' =
        Returns [(''avg_sentence_length'', 2 / 15), (''lexical_diversity'', 3 / 5),
                 (''syntactic_complexity'', 1 / 5), (''vocabulary_rarity'', 1 / 3)]
   \<and> translation_score (\<lambda>text. Inr 25) ''Kick the bucket now it rains'' =
        Returns [(''semantic_complexity'', 1), (''idiomatic_density'', 1 / 2),
                 (''domain_specificity'', 2 / 3)]"
  using linguistic_and_semantic_normalizer
    [of example_nlp "''Kick the bucket now it rains''" example_Doc 4 2 "\<lambda>text. Inr 25" 25]
  by (simp add: example_nlp_def example_Doc_raw example_idioms)

subsection \<open>Batch orchestrator\<close>

text \<open>
  C6, as the code behaves. \<open>batch_score\<close> returns a list exactly when \<open>score_text\<close>
  returns for every text of the input, and then the list has the input's length and its
  i-th element is what \<open>score_text\<close> returns for the i-th text (same order, nothing
  merged or dropped); it raises an exception exactly when \<open>score_text\<close> raises it for
  some text and returns for every text before that one.
\<close>

theorem batch_score_pointwise:
  "(batch_score self texts = Returns bundles \<longleftrightarrow>
      length bundles = length texts
      \<and> (\<forall>i<length texts. score_text self (texts ! i) = Returns (bundles ! i)))
   \<and> (batch_score self texts = Raises e \<longleftrightarrow>
      (\<exists>i<length texts. score_text self (texts ! i) = Raises e
         \<and> (\<forall>j<i. \<exists>b. score_text self (texts ! j) = Returns b)))"
proof
  show "batch_score self texts = Returns bundles \<longleftrightarrow>
      length bundles = length texts
      \<and> (\<forall>i<length texts. score_text self (texts ! i) = Returns (bundles ! i))"
    by (auto simp: batch_score_Returns_iff list_all2_conv_all_nth)
  show "batch_score self texts = Raises e \<longleftrightarrow>
      (\<exists>i<length texts. score_text self (texts ! i) = Raises e
         \<and> (\<forall>j<i. \<exists>b. score_text self (texts ! j) = Returns b))"
    by (rule batch_score_Raises_iff)
qed

theorem batch_score_pointwise_witness:
  "\<exists>b1 b2. score_text example_scorer ''The cat sat.'' = Returns b1
     \<and> score_text example_scorer ''Kick the bucket now it rains'' = Returns b2
     \<and> b1 \<noteq> b2
     \<and> length [b1, b2] = length [''The cat sat.'', ''Kick the bucket now it rains'']
     \<and> batch_score example_scorer [''The cat sat.'', ''Kick the bucket now it rains'']
         = Returns [b1, b2]"
proof -
  obtain b1 where b1: "score_text example_scorer ''The cat sat.'' = Returns b1"
    and m1: "map_of b1 ''idiomatic_density'' = Some (Num 0)"
    using example_score_text by simp
  obtain b2 where b2: "score_text example_scorer ''Kick the bucket now it rains'' = Returns b2"
    and m2: "map_of b2 ''idiomatic_density'' = Some (Num (1 / 2))"
    using example_score_text_idiom by simp
  have ne: "b1 \<noteq> b2" using m1 m2 by auto
  have "\<forall>i<length [''The cat sat.'', ''Kick the bucket now it rains''].
          score_text example_scorer ([''The cat sat.'', ''Kick the bucket now it rains''] ! i)
            = Returns ([b1, b2] ! i)"
    using b1 b2 by (auto simp: less_Suc_eq)
  then have "batch_score example_scorer [''The cat sat.'', ''Kick the bucket now it rains'']
         = Returns [b1, b2]"
    using batch_score_pointwise
      [of example_scorer "[''The cat sat.'', ''Kick the bucket now it rains'']" "[b1, b2]"]
    by simp
  with b1 b2 ne show ?thesis by auto
qed

text \<open>
  The claim as stated fails for a list with a text on which \<open>score_text\<close> raises:
  \<open>score_text\<close> returns a bundle for the first text of the list below, and \<open>batch_score\<close>
  returns no list for it. The same happens when the embedding model fails.
\<close>

theorem batch_score_counterexample:
  "score_text example_scorer ''The cat sat.'' =
     Returns [(''flesch_kincaid'', Num 0), (''coleman_liau'', Num (1 / 5)),
              (''gunning_fog'', Num (2 / 5)), (''smog'', Num (4 / 5)),
              (''flesch_reading_ease'', Num (1 / 6)),
              (''avg_sentence_length'', Num (2 / 15)),
              (''lexical_diversity'', Num (3 / 5)),
              (''syntactic_complexity'', Num (1 / 5)),
              (''vocabulary_rarity'', Num (1 / 3)),
              (''semantic_complexity'', Num (1 / 2)), (''idiomatic_density'', Num 0),
              (''domain_specificity'', Num (2 / 3)),
              (''overall_complexity'', Num (253 / 750))]
   \<and> batch_score example_scorer [''The cat sat.'', ''''] = Raises ZeroDivisionError
   \<and> batch_score (example_scorer\<lparr>embedding_norm := \<lambda>text. Inl (Exception ''model unavailable'')\<rparr>)
         [''The cat sat.''] = Raises (Exception ''model unavailable'')"
proof -
  have "score_text (example_scorer\<lparr>embedding_norm := \<lambda>text. Inl (Exception ''model unavailable'')\<rparr>)
          ''The cat sat.'' = Raises (Exception ''model unavailable'')"
    by (simp add: score_text_def example_scorer_def scorer_init_def example_linguistic
        translation_score_def calculate_semantic_complexity_def call_def then_do_simps Let_def)
  then have "batch_score (example_scorer\<lparr>embedding_norm := \<lambda>text. Inl (Exception ''model unavailable'')\<rparr>)
         [''The cat sat.''] = Raises (Exception ''model unavailable'')"
    by (simp add: then_do_simps)
  then show ?thesis
    by (simp add: example_score_text example_score_text_empty then_do_simps)
qed

subsection \<open>Empty text\<close>

text \<open>
  C8, what the code does on the empty text. A document without sentences passes the guard
  \<open>if not doc.sents\<close>, and \<open>_calculate_avg_sentence_length\<close> divides by the number of
  sentences, zero: the linguistic provider and \<open>score_text\<close> raise \<open>ZeroDivisionError\<close>.
  Taken alone, the lexical diversity and the vocabulary rarity of the empty document are 0
  (their guards test a list), and the syntactic complexity raises as the sentence length does.
\<close>

theorem empty_text_raises:
  "calculate_avg_sentence_length empty_Doc = Raises ZeroDivisionError
   \<and> calculate_lexical_diversity empty_Doc = 0
   \<and> calculate_syntactic_complexity empty_Doc = Raises ZeroDivisionError
   \<and> calculate_vocabulary_rarity empty_Doc = 0
   \<and> linguistic_score example_nlp '''' = Raises ZeroDivisionError
   \<and> score_text example_scorer '''' = Raises ZeroDivisionError
   \<and> score_text (self\<lparr>nlp := \<lambda>text. Inr (doc\<lparr>sents := []\<rparr>)\<rparr>) '''' = Raises ZeroDivisionError"
  by (simp add: example_score_text_empty score_text_no_sentences [of _ _ "doc\<lparr>sents := []\<rparr>"]
      linguistic_score_def call_def then_do_simps example_nlp_def empty_Doc_def
      calculate_avg_sentence_length_def calculate_syntactic_complexity_def
      calculate_lexical_diversity_def calculate_vocabulary_rarity_def
      generator_truth_def py_truediv_def)

end
